theory Spec2Isabelle
  imports Complex_Main "HOL-Library.List_Lexorder" "HOL-Library.Char_ord"
begin

section \<open>Clips and compositions\<close>

text \<open>
  The scripts place MoviePy clips on a timeline. Only the timing and the frame size of a
  clip matter here, so a clip is a record of the attributes the scripts read and set:
  \<^verbatim>\<open>filename\<close>, \<^verbatim>\<open>duration\<close>, \<^verbatim>\<open>size\<close>, \<^verbatim>\<open>start\<close>, whether it has an audio track, and the
  effects applied with \<^verbatim>\<open>fx\<close>, \<^verbatim>\<open>set_position\<close> and \<^verbatim>\<open>set_mask\<close>. Durations are Python floats in the source; they
  are exact rationals here, so every statement below is about exact arithmetic.
\<close>

type_synonym exn = string

record video_file =
  vf_name :: string
  vf_duration :: rat
  vf_size :: "nat \<times> nat"
  vf_audio :: bool

datatype effect =
    FadeIn rat
  | FadeOut rat
  | SlideInPosition rat nat
  | WipeMask rat "nat \<times> nat"
  | SpeedX rat

record vclip =
  filename :: string
  duration :: rat
  frame_size :: "nat \<times> nat"
  start :: rat
  effects :: "effect list"
  audio :: bool

definition VideoFileClip :: "video_file \<Rightarrow> vclip" where
  "VideoFileClip f =
     \<lparr>filename = vf_name f, duration = vf_duration f, frame_size = vf_size f,
      start = 0, effects = [], audio = vf_audio f\<rparr>"

text \<open>MoviePy keeps \<^verbatim>\<open>end = start + duration\<close> for every clip the scripts build.\<close>

definition clip_end :: "vclip \<Rightarrow> rat" where
  "clip_end c = start c + duration c"

definition set_start :: "rat \<Rightarrow> vclip \<Rightarrow> vclip" where
  "set_start t c = c\<lparr>start := t\<rparr>"

definition fx :: "effect \<Rightarrow> vclip \<Rightarrow> vclip" where
  "fx e c =
     (case e of
        SpeedX factor \<Rightarrow> c\<lparr>duration := duration c / factor, effects := effects c @ [e]\<rparr>
      | _ \<Rightarrow> c\<lparr>effects := effects c @ [e]\<rparr>)"

record composite =
  layers :: "vclip list"
  comp_duration :: rat
  comp_size :: "nat \<times> nat"

text \<open>
  \<^verbatim>\<open>CompositeVideoClip(clips, size=None)\<close>: the canvas is the given size or that of the first
  clip, the duration is the latest end of a layer. An empty list raises.
\<close>

definition CompositeVideoClip :: "vclip list \<Rightarrow> (nat \<times> nat) option \<Rightarrow> exn + composite" where
  "CompositeVideoClip clips sz =
     (case clips of
        [] \<Rightarrow> Inl (case sz of None \<Rightarrow> ''IndexError'' | Some _ \<Rightarrow> ''ValueError'')
      | c # cs \<Rightarrow>
          Inr \<lparr>layers = clips,
               comp_duration = foldl max (clip_end c) (map clip_end cs),
               comp_size = (case sz of None \<Rightarrow> frame_size c | Some s \<Rightarrow> s)\<rparr>)"

definition set_duration :: "rat \<Rightarrow> composite \<Rightarrow> composite" where
  "set_duration d v = v\<lparr>comp_duration := d\<rparr>"

text \<open>
  \<^verbatim>\<open>concatenate_videoclips(clips, method)\<close>: with \<^verbatim>\<open>tt = cumsum([0] + durations)\<close>, clip \<open>i\<close>
  plays from \<^verbatim>\<open>tt[i]\<close> and the result lasts \<^verbatim>\<open>tt[-1]\<close>, for both methods. With
  \<^verbatim>\<open>method="compose"\<close> the canvas is the largest width and height; with the default
  \<^verbatim>\<open>method="chain"\<close> the result takes its size from its frame at time 0, the frame of the
  first clip (clips of positive duration, as video files have). MoviePy also clamps \<^verbatim>\<open>tt\<close>
  at 0, which changes nothing for non-negative durations and is left out.
\<close>

datatype concat_method = Chain | Compose

fun cumsum :: "rat \<Rightarrow> rat list \<Rightarrow> rat list" where
  "cumsum acc [] = []"
| "cumsum acc (x # xs) = (acc + x) # cumsum (acc + x) xs"

definition concatenate_videoclips :: "concat_method \<Rightarrow> vclip list \<Rightarrow> exn + composite" where
  "concatenate_videoclips method clips =
     (case clips of
        [] \<Rightarrow> Inl ''ValueError''
      | c # cs \<Rightarrow>
          (let tt = cumsum 0 (0 # map duration clips)
           in Inr \<lparr>layers = map (\<lambda>(c, t). set_start t c) (zip clips tt),
                   comp_duration = last tt,
                   comp_size =
                     (case method of
                        Chain \<Rightarrow> frame_size c
                      | Compose \<Rightarrow>
                          (foldl max (fst (frame_size c)) (map (fst \<circ> frame_size) cs),
                           foldl max (snd (frame_size c)) (map (snd \<circ> frame_size) cs)))\<rparr>))"

text \<open>A composition has an audio track when one of its clips has.\<close>

definition has_audio :: "composite \<Rightarrow> bool" where
  "has_audio v = list_ex audio (layers v)"

section \<open>The stitching step of each script\<close>

text \<open>\<^verbatim>\<open>concatenation.py\<close>, lines 47 to 50.\<close>

definition concat_stitch :: "vclip list \<Rightarrow> exn + composite" where
  "concat_stitch clips_to_stitch = concatenate_videoclips Chain clips_to_stitch"

text \<open>
  \<^verbatim>\<open>crossfade.py\<close>, lines 49 to 73. The loop state is the pair
  \<^verbatim>\<open>(composited_clips_list, current_duration)\<close>; \<open>T\<close> is \<^verbatim>\<open>TRANSITION_DURATION\<close>.
\<close>

fun crossfade_body :: "rat \<Rightarrow> vclip list \<times> rat \<Rightarrow> nat \<times> vclip \<Rightarrow> vclip list \<times> rat" where
  "crossfade_body T (composited_clips_list, current_duration) (i, clip) =
     (if i = 0 then (composited_clips_list @ [set_start 0 clip], duration clip)
      else
        (let start_time = current_duration - T;
             clip_with_fade = set_start start_time (fx (FadeIn T) clip)
         in (composited_clips_list @ [clip_with_fade],
             current_duration + (duration clip - T))))"

definition crossfade_stitch :: "rat \<Rightarrow> vclip list \<Rightarrow> exn + composite" where
  "crossfade_stitch T clips =
     (let (composited_clips_list, current_duration) =
            foldl (crossfade_body T) ([], 0) (enumerate 0 clips)
      in map_sum id (set_duration current_duration)
           (CompositeVideoClip composited_clips_list None))"

text \<open>\<^verbatim>\<open>fade-in-out.py\<close>, lines 82 to 100.\<close>

definition fade_body :: "rat \<Rightarrow> nat \<Rightarrow> nat \<times> vclip \<Rightarrow> vclip" where
  "fade_body T num_clips = (\<lambda>(i, clip).
     (let clip1 = (if 0 < i then fx (FadeIn T) clip else clip);
          clip2 = (if int i < int num_clips - 1 then fx (FadeOut T) clip1 else clip1)
      in clip2))"

definition fade_stitch :: "rat \<Rightarrow> vclip list \<Rightarrow> exn + composite" where
  "fade_stitch T clips =
     (let num_clips = length clips;
          processed_clips = map (fade_body T num_clips) (enumerate 0 clips)
      in concatenate_videoclips Compose processed_clips)"

text \<open>\<^verbatim>\<open>slide.py\<close>, lines 50 to 85; \<open>w\<close> is the width of the first clip.\<close>

fun slide_body :: "rat \<Rightarrow> nat \<Rightarrow> vclip list \<times> rat \<Rightarrow> nat \<times> vclip \<Rightarrow> vclip list \<times> rat" where
  "slide_body T w (composited_clips_list, current_duration) (i, clip) =
     (if i = 0 then (composited_clips_list @ [set_start 0 clip], duration clip)
      else
        (let start_time = current_duration - T;
             clip_with_slide = set_start start_time (fx (SlideInPosition T w) clip)
         in (composited_clips_list @ [clip_with_slide],
             current_duration + (duration clip - T))))"

definition slide_stitch :: "rat \<Rightarrow> vclip list \<Rightarrow> exn + composite" where
  "slide_stitch T clips =
     (case clips of
        [] \<Rightarrow> Inl ''IndexError''
      | c0 # _ \<Rightarrow>
          (let video_size = frame_size c0;
               w = fst video_size;
               (composited_clips_list, current_duration) =
                  foldl (slide_body T w) ([], 0) (enumerate 0 clips)
           in map_sum id (set_duration current_duration)
                (CompositeVideoClip composited_clips_list (Some video_size))))"

text \<open>
  \<^verbatim>\<open>wipe.py\<close>, lines 50 to 84. \<^verbatim>\<open>create_wipe_mask(t)\<close> computes the position of the bar as
  \<^verbatim>\<open>int(video_size[0] * (t / TRANSITION_DURATION))\<close>, and the division raises when the
  transition duration is 0. \<^verbatim>\<open>VideoClip(create_wipe_mask, ...)\<close> calls the function at time 0
  to learn the size of the mask, so the mask of every clip after the first is built only
  when that call returns.
\<close>

definition py_int :: "rat \<Rightarrow> int" where
  "py_int x = (if 0 \<le> x then \<lfloor>x\<rfloor> else \<lceil>x\<rceil>)"

definition create_wipe_mask :: "rat \<Rightarrow> nat \<times> nat \<Rightarrow> rat \<Rightarrow> exn + int" where
  "create_wipe_mask T video_size t =
     (if T = 0 then Inl ''ZeroDivisionError''
      else Inr (py_int (of_nat (fst video_size) * (t / T))))"

definition wipe_mask_clip :: "rat \<Rightarrow> nat \<times> nat \<Rightarrow> exn + effect" where
  "wipe_mask_clip T video_size =
     (case create_wipe_mask T video_size 0 of
        Inl x \<Rightarrow> Inl x
      | Inr _ \<Rightarrow> Inr (WipeMask T video_size))"

fun wipe_body ::
  "rat \<Rightarrow> nat \<times> nat \<Rightarrow> vclip list \<times> rat \<Rightarrow> nat \<times> vclip \<Rightarrow> exn + vclip list \<times> rat" where
  "wipe_body T video_size (composited_clips_list, current_duration) (i, clip) =
     (if i = 0 then Inr (composited_clips_list @ [set_start 0 clip], duration clip)
      else
        (let start_time = current_duration - T
         in case wipe_mask_clip T video_size of
              Inl x \<Rightarrow> Inl x
            | Inr mask_clip \<Rightarrow>
                (let clip_with_wipe = fx mask_clip (set_start start_time clip)
                 in Inr (composited_clips_list @ [clip_with_wipe],
                         current_duration + (duration clip - T)))))"

fun wipe_loop ::
  "rat \<Rightarrow> nat \<times> nat \<Rightarrow> (nat \<times> vclip) list \<Rightarrow> vclip list \<times> rat \<Rightarrow> exn + vclip list \<times> rat" where
  "wipe_loop T video_size [] st = Inr st"
| "wipe_loop T video_size (x # xs) st =
     (case wipe_body T video_size st x of
        Inl e \<Rightarrow> Inl e
      | Inr st1 \<Rightarrow> wipe_loop T video_size xs st1)"

definition wipe_stitch :: "rat \<Rightarrow> vclip list \<Rightarrow> exn + composite" where
  "wipe_stitch T clips =
     (case clips of
        [] \<Rightarrow> Inl ''IndexError''
      | c0 # _ \<Rightarrow>
          (let video_size = frame_size c0
           in case wipe_loop T video_size (enumerate 0 clips) ([], 0) of
                Inl x \<Rightarrow> Inl x
              | Inr (composited_clips_list, current_duration) \<Rightarrow>
                  map_sum id (set_duration current_duration)
                    (CompositeVideoClip composited_clips_list (Some video_size))))"

text \<open>
  \<^verbatim>\<open>blend.py\<close>, lines 50 to 63. Clip \<open>i\<close> starts at \<^verbatim>\<open>clips[i-1].duration - T\<close>; the last
  entry is then rebuilt from \<^verbatim>\<open>clips[-1]\<close> and \<^verbatim>\<open>clips[-2]\<close>, which raises for one clip.
\<close>

definition blend_stitch :: "rat \<Rightarrow> vclip list \<Rightarrow> exn + composite" where
  "blend_stitch T clips =
     (case clips of
        [] \<Rightarrow> Inl ''IndexError''
      | c0 # _ \<Rightarrow>
          (let clips_to_stitch =
                 foldl (\<lambda>acc i. acc @
                          [set_start (duration (clips ! (i - 1)) - T) (fx (FadeIn T) (clips ! i))])
                   [fx (FadeOut T) c0] [1 ..< length clips]
           in if length clips < 2 then Inl ''IndexError''
              else
                CompositeVideoClip
                  (clips_to_stitch[length clips_to_stitch - 1 :=
                     set_start (duration (clips ! (length clips - 2)) - T)
                       (fx (FadeIn T) (last clips))])
                  None))"

text \<open>
  What the claims measure on a plan: its total duration, and the overlap of two
  neighbouring layers, the time from the start of the later one to the end of the earlier.
\<close>

definition total_duration :: "exn + composite \<Rightarrow> exn + rat" where
  "total_duration r = map_sum id comp_duration r"



definition plan_layers :: "exn + composite \<Rightarrow> vclip list" where
  "plan_layers r = (case r of Inl _ \<Rightarrow> [] | Inr v \<Rightarrow> layers v)"


text \<open>
  Closed forms of the loops above, used to reason about them: the layers that the
  overlap loops append after the first clip, and the layers of a concatenation.
\<close>

fun later_layers :: "(rat \<Rightarrow> vclip \<Rightarrow> vclip) \<Rightarrow> rat \<Rightarrow> rat \<Rightarrow> vclip list \<Rightarrow> vclip list" where
  "later_layers g T cur [] = []"
| "later_layers g T cur (c # cs) = g (cur - T) c # later_layers g T (cur + (duration c - T)) cs"

fun placed_from :: "rat \<Rightarrow> vclip list \<Rightarrow> vclip list" where
  "placed_from t [] = []"
| "placed_from t (c # cs) = set_start t c # placed_from (t + duration c) cs"

definition clip_of :: "string \<Rightarrow> rat \<Rightarrow> nat \<times> nat \<Rightarrow> vclip" where
  "clip_of n d sz =
     VideoFileClip \<lparr>vf_name = n, vf_duration = d, vf_size = sz, vf_audio = True\<rparr>"

section \<open>The world the scripts act on\<close>

text \<open>
  A run creates a temporary directory, downloads into it, renders, uploads and prints.
  The world records the local directories and files (a file is its directory and its
  base name), the uploaded objects, and the trace of messages, requests and sleeps.
  Messages are shortened to their fixed part, and the progress lines that the stitching
  loops print for each clip are left out.
\<close>

datatype event = Print string | SubmitRequest | StatusRequest | Sleep nat

datatype transform = Crop rat rat | Pillarbox "nat \<times> nat" | ResizeHeight nat

datatype media = Rendered composite | Encoded video_file | Transformed video_file transform

record world =
  dirs :: "string list"
  files :: "(string \<times> string) list"
  uploads :: "(string \<times> media) list"
  trace :: "event list"

datatype outcome = Returns | Raises exn

definition print :: "string \<Rightarrow> world \<Rightarrow> world" where
  "print msg w = w\<lparr>trace := trace w @ [Print msg]\<rparr>"

definition emit :: "event list \<Rightarrow> world \<Rightarrow> world" where
  "emit evs w = w\<lparr>trace := trace w @ evs\<rparr>"

definition mkdir :: "string \<Rightarrow> world \<Rightarrow> world" where
  "mkdir d w = w\<lparr>dirs := dirs w @ [d]\<rparr>"

definition add_file :: "string \<Rightarrow> string \<Rightarrow> world \<Rightarrow> world" where
  "add_file d n w = w\<lparr>files := files w @ [(d, n)]\<rparr>"

definition rmtree :: "string \<Rightarrow> world \<Rightarrow> world" where
  "rmtree d w = w\<lparr>dirs := filter (\<lambda>x. x \<noteq> d) (dirs w),
                  files := filter (\<lambda>f. fst f \<noteq> d) (files w)\<rparr>"

definition remove_file :: "string \<Rightarrow> string \<Rightarrow> world \<Rightarrow> world" where
  "remove_file d n w = w\<lparr>files := filter (\<lambda>f. f \<noteq> (d, n)) (files w)\<rparr>"

definition upload :: "string \<Rightarrow> media \<Rightarrow> world \<Rightarrow> world" where
  "upload n m w = w\<lparr>uploads := uploads w @ [(n, m)]\<rparr>"

text \<open>
  What a run meets outside the script: the name \<^verbatim>\<open>mkdtemp\<close> hands out, the video blobs
  under the source prefix that pass the extension filter (in listing order, named by their
  base names), and which of the storage, download, render and upload calls raise; rendering
  has an audio pass and a video pass.
\<close>

record env =
  tmp_name :: string
  storage_error :: "exn option"
  listing :: "video_file list"
  download_error :: "nat \<Rightarrow> exn option"
  audio_error :: "exn option"
  write_error :: "exn option"
  upload_error :: "exn option"

definition DESTINATION_PREFIX :: string where
  "DESTINATION_PREFIX = ''CRED_exps/output_videos/''"

text \<open>The download loop: \<^verbatim>\<open>for blob in blobs: ... downloaded_files.append(local_path)\<close>.\<close>

fun download_loop ::
  "'a env_scheme \<Rightarrow> string \<Rightarrow> nat \<Rightarrow> video_file list \<Rightarrow> video_file list \<Rightarrow> world
     \<Rightarrow> (exn + video_file list) \<times> world" where
  "download_loop e tmp i [] downloaded_files w = (Inr downloaded_files, w)"
| "download_loop e tmp i (blob # blobs) downloaded_files w =
     (case download_error e i of
        Some x \<Rightarrow> (Inl x, w)
      | None \<Rightarrow>
          download_loop e tmp (Suc i) blobs (downloaded_files @ [blob])
            (print ''Downloaded'' (add_file tmp (vf_name blob) w)))"

text \<open>
  \<^verbatim>\<open>clip.write_videofile(path, codec="libx264", audio_codec="aac")\<close>, as every script calls
  it, without \<^verbatim>\<open>temp_audiofile\<close>. For a clip with audio MoviePy first writes the sound to
  \<^verbatim>\<open><name>TEMP_MPY_wvf_snd.mp4\<close> under a relative path, that is in the working directory
  \<^verbatim>\<open>.\<close>, where \<^verbatim>\<open><name>\<close> is the base name of \<^verbatim>\<open>path\<close> without its extension; then it writes
  the video to \<^verbatim>\<open>path\<close>; then it removes the sound file. A pass that raises leaves what was
  written so far.
\<close>

definition splitext_root :: "string \<Rightarrow> string" where
  "splitext_root n =
     (let after = dropWhile (\<lambda>c. c \<noteq> CHR ''.'') (rev n)
      in if after = [] \<or> list_all (\<lambda>c. c = CHR ''.'') after then n else rev (tl after))"

definition temp_audiofile :: "string \<Rightarrow> string" where
  "temp_audiofile n = splitext_root n @ ''TEMP_MPY_wvf_snd.mp4''"

definition write_videofile ::
  "string \<Rightarrow> string \<Rightarrow> bool \<Rightarrow> exn option \<Rightarrow> exn option \<Rightarrow> world \<Rightarrow> exn option \<times> world" where
  "write_videofile d n make_audio audio_err video_err w =
     (if make_audio
      then
        (let w1 = add_file ''.'' (temp_audiofile n) w
         in case audio_err of
              Some x \<Rightarrow> (Some x, w1)
            | None \<Rightarrow>
                (let w2 = add_file d n w1
                 in case video_err of
                      Some x \<Rightarrow> (Some x, w2)
                    | None \<Rightarrow> (None, remove_file ''.'' (temp_audiofile n) w2)))
      else
        (let w2 = add_file d n w
         in case video_err of
              Some x \<Rightarrow> (Some x, w2)
            | None \<Rightarrow> (None, w2)))"

text \<open>Writing the final video into the temporary directory and uploading it.\<close>

definition write_and_upload ::
  "string \<Rightarrow> composite \<Rightarrow> 'a env_scheme \<Rightarrow> string \<Rightarrow> world \<Rightarrow> exn option \<times> world" where
  "write_and_upload final_name final_clip e tmp w =
     (case write_videofile tmp final_name (has_audio final_clip) (audio_error e) (write_error e)
             (print ''Writing final video locally'' w) of
        (Some x, w1) \<Rightarrow> (Some x, w1)
      | (None, w1) \<Rightarrow>
          (let w2 = print ''Uploading final video'' w1
           in case upload_error e of
                Some x \<Rightarrow> (Some x, w2)
              | None \<Rightarrow>
                  (None, print ''Process complete!''
                           (upload (DESTINATION_PREFIX @ final_name) (Rendered final_clip) w2))))"

text \<open>
  The body of the \<^verbatim>\<open>try\<close> block that \<^verbatim>\<open>concatenation.py\<close>, \<^verbatim>\<open>crossfade.py\<close>,
  \<^verbatim>\<open>fade-in-out.py\<close>, \<^verbatim>\<open>slide.py\<close>, \<^verbatim>\<open>wipe.py\<close> and \<^verbatim>\<open>blend.py\<close> share word for word; the
  scripts differ in the stitching step and the name of the output. The result is the
  exception that left the block, if any.
\<close>

definition gcs_try_body ::
  "string \<Rightarrow> (vclip list \<Rightarrow> exn + composite) \<Rightarrow> 'a env_scheme \<Rightarrow> string \<Rightarrow> world
     \<Rightarrow> exn option \<times> world" where
  "gcs_try_body final_name stitch e tmp w =
     (case storage_error e of
        Some x \<Rightarrow> (Some x, w)
      | None \<Rightarrow>
          (case download_loop e tmp 0 (listing e) [] (print ''Downloading videos'' w) of
             (Inl x, w1) \<Rightarrow> (Some x, w1)
           | (Inr downloaded_files, w1) \<Rightarrow>
               if downloaded_files = [] then (None, print ''No video files found. Exiting.'' w1)
               else
                 (let sorted_files = sort_key vf_name downloaded_files;
                      w2 = print ''Applying transitions'' w1
                  in case stitch (map VideoFileClip sorted_files) of
                       Inl x \<Rightarrow> (Some x, w2)
                     | Inr final_clip \<Rightarrow> write_and_upload final_name final_clip e tmp w2)))"

text \<open>
  The frame around it: \<^verbatim>\<open>mkdtemp\<close>, \<^verbatim>\<open>try\<close>, \<^verbatim>\<open>except Exception as e: print\<close>, and the
  \<^verbatim>\<open>finally\<close> that removes the directory when it exists.
\<close>

definition gcs_pipeline ::
  "string \<Rightarrow> (vclip list \<Rightarrow> exn + composite) \<Rightarrow> 'a env_scheme \<Rightarrow> world \<Rightarrow> outcome \<times> world" where
  "gcs_pipeline final_name stitch e w =
     (let local_temp_dir = tmp_name e;
          w0 = print ''Created temporary directory'' (mkdir local_temp_dir w);
          (r, w1) = gcs_try_body final_name stitch e local_temp_dir w0;
          w2 = (case r of Some x \<Rightarrow> print (''An error occurred: '' @ x) w1 | None \<Rightarrow> w1);
          w3 = (if local_temp_dir \<in> set (dirs w2)
                then rmtree local_temp_dir (print ''Cleaning up temporary directory'' w2)
                else w2)
      in (Returns, w3))"

definition process_gcs_videos_concat_only :: "'a env_scheme \<Rightarrow> world \<Rightarrow> outcome \<times> world" where
  "process_gcs_videos_concat_only =
     gcs_pipeline ''concatenated_video_no_transition.mp4'' concat_stitch"

definition process_gcs_videos_with_crossfade :: "'a env_scheme \<Rightarrow> world \<Rightarrow> outcome \<times> world" where
  "process_gcs_videos_with_crossfade =
     gcs_pipeline ''concatenated_video_crossfade.mp4'' (crossfade_stitch (1 / 2))"

definition fade_process_gcs_videos :: "'a env_scheme \<Rightarrow> world \<Rightarrow> outcome \<times> world" where
  "fade_process_gcs_videos =
     gcs_pipeline ''concatenated_fade_video.mp4'' (fade_stitch (1 / 5))"

definition process_gcs_videos_with_slide :: "'a env_scheme \<Rightarrow> world \<Rightarrow> outcome \<times> world" where
  "process_gcs_videos_with_slide =
     gcs_pipeline ''concatenated_video_slide.mp4'' (slide_stitch 2)"

definition process_gcs_videos_with_wipe :: "'a env_scheme \<Rightarrow> world \<Rightarrow> outcome \<times> world" where
  "process_gcs_videos_with_wipe =
     gcs_pipeline ''concatenated_video_wipe.mp4'' (wipe_stitch 1)"

definition process_gcs_videos_with_blend :: "'a env_scheme \<Rightarrow> world \<Rightarrow> outcome \<times> world" where
  "process_gcs_videos_with_blend =
     gcs_pipeline ''concatenated_video_blend.mp4'' (blend_stitch (3 / 2))"


section \<open>The interpolation job of \<^verbatim>\<open>veo2_interpolation.py\<close>\<close>

text \<open>
  The remote service as one job sees it: whether the two frame images can be read,
  whether fetching the credentials raises, the answer to the submission, and the answer
  to the \<open>i\<close>-th status request. A status answer is classified the way the polling
  \<^verbatim>\<open>try\<close> block treats it: the request raises, \<^verbatim>\<open>done\<close> is false, \<^verbatim>\<open>done\<close> is true and
  \<^verbatim>\<open>response.videos[0]\<close> exists (with its \<^verbatim>\<open>gcsUri\<close>, if any), \<^verbatim>\<open>done\<close> is true and a key is
  missing, or anything else raises.
\<close>

datatype submit_response =
  SubmitOK string | SubmitHTTPError | SubmitRequestException | SubmitException

datatype poll_response =
  PollRequestException | PollNotDone | PollDone "string option" | PollKeyError | PollException

record job_env =
  images_readable :: bool
  auth_error :: "exn option"
  submit :: submit_response
  poll :: "nat \<Rightarrow> poll_response"

definition max_iterations :: nat where
  "max_iterations = 600"

definition interval_sec :: nat where
  "interval_sec = 10"

text \<open>
  \<^verbatim>\<open>for i in range(max_iterations)\<close>, lines 123 to 149: the loop ends by the \<^verbatim>\<open>return\<close>
  inside it, by a \<^verbatim>\<open>break\<close>, or by running out of iterations. The second argument is
  \<open>i\<close>, the third the number of iterations left.
\<close>

datatype loop_exit = Returned "string option" | Broke | Exhausted

fun poll_loop :: "(nat \<Rightarrow> poll_response) \<Rightarrow> nat \<Rightarrow> nat \<Rightarrow> loop_exit \<times> event list" where
  "poll_loop srv i 0 = (Exhausted, [])"
| "poll_loop srv i (Suc remaining) =
     (case srv i of
        PollRequestException \<Rightarrow> (Broke, [StatusRequest, Print ''ERROR: Polling failed''])
      | PollNotDone \<Rightarrow>
          (let (ex, evs) = poll_loop srv (Suc i) remaining
           in (ex, [StatusRequest, Print ''Polling operation. Not done yet.'', Sleep interval_sec]
                     @ evs))
      | PollDone uri \<Rightarrow>
          (Returned uri,
           [StatusRequest, Print ''SUCCESS (LRO Complete)'', Print ''Generated video available''])
      | PollKeyError \<Rightarrow> (Broke, [StatusRequest, Print ''ERROR: KeyError during polling''])
      | PollException \<Rightarrow>
          (Broke, [StatusRequest, Print ''ERROR: An unexpected error occurred during polling'']))"

definition supported_ext :: "string \<Rightarrow> bool" where
  "supported_ext ext = (ext = ''.png'' \<or> ext \<in> set [''.jpg'', ''.jpeg''])"

text \<open>
  \<^verbatim>\<open>interpolate_video_veo2\<close>; the two paths are given by their lower-cased extensions. The
  result is the returned URI (\<open>None\<close> for Python's \<^verbatim>\<open>None\<close>), or the exception that
  \<^verbatim>\<open>get_auth_headers\<close> raised outside every \<^verbatim>\<open>try\<close>.
\<close>

definition interpolate_video_veo2 ::
  "job_env \<Rightarrow> string \<Rightarrow> string \<Rightarrow> (exn + string option) \<times> event list" where
  "interpolate_video_veo2 j start_image_ext end_image_ext =
     (let ev0 = [Print ''Performing Veo 2 Interpolation'']
      in if \<not> images_readable j
         then (Inr None, ev0 @ [Print ''ERROR: Failed to read and encode local image files''])
         else
           (case auth_error j of
              Some x \<Rightarrow> (Inl x, ev0)
            | None \<Rightarrow>
                if \<not> supported_ext start_image_ext
                then (Inr None, ev0 @ [Print ''ERROR: Unsupported file extension for start image''])
                else if \<not> supported_ext end_image_ext
                then (Inr None, ev0 @ [Print ''ERROR: Unsupported file extension for end image''])
                else
                  (case submit j of
                     SubmitHTTPError \<Rightarrow>
                       (Inr None,
                        ev0 @ [SubmitRequest, Print ''ERROR: HTTP Error during Veo 2 API call''])
                   | SubmitRequestException \<Rightarrow>
                       (Inr None,
                        ev0 @ [SubmitRequest, Print ''ERROR: Network or other Request Error''])
                   | SubmitException \<Rightarrow>
                       (Inr None,
                        ev0 @ [SubmitRequest, Print ''ERROR: An unexpected error occurred''])
                   | SubmitOK op_name \<Rightarrow>
                       (let ev1 = ev0 @ [SubmitRequest, Print ''SUCCESS (LRO Initiated)''];
                            (ex, evs) = poll_loop (poll j) 0 max_iterations
                        in case ex of
                             Returned generated_videos_uri \<Rightarrow>
                               (Inr generated_videos_uri, ev1 @ evs)
                           | _ \<Rightarrow>
                               (Inr None, ev1 @ evs @ [Print ''ERROR: Polling timed out''])))))"

definition status_requests :: "event list \<Rightarrow> nat" where
  "status_requests evs = length (filter (\<lambda>ev. ev = StatusRequest) evs)"

definition network :: "event list \<Rightarrow> event list" where
  "network evs = filter (\<lambda>ev. case ev of Print _ \<Rightarrow> False | _ \<Rightarrow> True) evs"

section \<open>The pipeline of \<^verbatim>\<open>veo2_interpolation.py\<close>\<close>

text \<open>Decimal numerals, for the \<^verbatim>\<open>{i}\<close> of the file names.\<close>

function str_nat :: "nat \<Rightarrow> string" where
  "str_nat n =
     (if n < 10 then [char_of (48 + n)] else str_nat (n div 10) @ [char_of (48 + n mod 10)])"
  by pat_completeness auto
termination
  by (relation "measure id") auto

declare str_nat.simps [simp del]

record veo2_env = env +
  frames :: "nat \<Rightarrow> bool \<times> bool"
  jobs :: "nat \<Rightarrow> job_env"
  transition_download :: "string \<Rightarrow> exn + video_file option"

definition TRANSITION_SPEED :: rat where
  "TRANSITION_SPEED = 5"

text \<open>
  One pass of \<^verbatim>\<open>for i in range(len(clips) - 1)\<close>, lines 197 to 254; \<open>frames e i\<close> is
  \<^verbatim>\<open>(success_A, success_B)\<close>, and the download of the generated clip raises, leaves no file,
  or leaves a video.
\<close>

definition veo2_transition ::
  "veo2_env \<Rightarrow> string \<Rightarrow> vclip list \<Rightarrow> nat \<Rightarrow> vclip list \<times> world
     \<Rightarrow> (exn + vclip list) \<times> world" where
  "veo2_transition e tmp clips i = (\<lambda>(final_sequence, w).
     (let clip_A = clips ! i;
          w1 = print ''Processing transition'' w;
          final_sequence1 = final_sequence @ [clip_A];
          (success_A, success_B) = frames e i;
          w2 = (if success_A then add_file tmp (''frame_A_end_'' @ str_nat i @ ''.png'') w1 else w1);
          w3 = (if success_B then add_file tmp (''frame_B_start_'' @ str_nat i @ ''.png'') w2 else w2)
      in if \<not> (success_A \<and> success_B)
         then (Inr final_sequence1,
               print ''WARNING: Failed to extract frames. Skipping transition.'' w3)
         else
           (case interpolate_video_veo2 (jobs e i) ''.png'' ''.png'' of
              (r, evs) \<Rightarrow>
                (let w4 = emit evs w3
                 in case r of
                      Inl x \<Rightarrow> (Inl x, w4)
                    | Inr transition_gcs_uri \<Rightarrow>
                        if transition_gcs_uri = None \<or> transition_gcs_uri = Some []
                        then (Inr final_sequence1,
                              print ''WARNING: Veo 2 interpolation failed. Skipping this transition.'' w4)
                        else
                          (let w5 = print ''Downloading generated transition'' w4
                           in case transition_download e (the transition_gcs_uri) of
                                Inl x \<Rightarrow> (Inl x, w5)
                              | Inr None \<Rightarrow>
                                  (Inr final_sequence1,
                                   print ''WARNING: Failed to download transition video. Skipping.'' w5)
                              | Inr (Some v) \<Rightarrow>
                                  (let w6 = add_file tmp (''transition_'' @ str_nat i @ ''.mp4'') w5;
                                       transition_clip = VideoFileClip v;
                                       sped_up_transition = fx (SpeedX TRANSITION_SPEED) transition_clip
                                   in (Inr (final_sequence1 @ [sped_up_transition]), w6)))))))"

fun veo2_loop ::
  "veo2_env \<Rightarrow> string \<Rightarrow> vclip list \<Rightarrow> nat list \<Rightarrow> vclip list \<times> world
     \<Rightarrow> (exn + vclip list) \<times> world" where
  "veo2_loop e tmp clips [] (final_sequence, w) = (Inr final_sequence, w)"
| "veo2_loop e tmp clips (i # rest) (final_sequence, w) =
     (case veo2_transition e tmp clips i (final_sequence, w) of
        (Inl x, w1) \<Rightarrow> (Inl x, w1)
      | (Inr final_sequence1, w1) \<Rightarrow> veo2_loop e tmp clips rest (final_sequence1, w1))"

definition veo2_try_body :: "veo2_env \<Rightarrow> string \<Rightarrow> world \<Rightarrow> exn option \<times> world" where
  "veo2_try_body e tmp w =
     (case storage_error e of
        Some x \<Rightarrow> (Some x, w)
      | None \<Rightarrow>
          (case download_loop e tmp 0 (listing e) [] (print ''Downloading videos'' w) of
             (Inl x, w1) \<Rightarrow> (Some x, w1)
           | (Inr downloaded_files, w1) \<Rightarrow>
               if downloaded_files = [] then (None, print ''No video files found. Exiting.'' w1)
               else
                 (let sorted_files = sort_key vf_name downloaded_files;
                      w2 = print ''Processing videos and generating transitions'' w1;
                      clips = map VideoFileClip sorted_files
                  in case veo2_loop e tmp clips [0 ..< length clips - 1] ([], w2) of
                       (Inl x, w3) \<Rightarrow> (Some x, w3)
                     | (Inr final_sequence, w3) \<Rightarrow>
                         (let final_sequence1 = final_sequence @ [last clips];
                              w4 = print ''Concatenating final video'' w3
                          in case concatenate_videoclips Chain final_sequence1 of
                               Inl x \<Rightarrow> (Some x, w4)
                             | Inr final_clip \<Rightarrow>
                                 write_and_upload ''final_video_with_interpolated_transitions.mp4''
                                   final_clip e tmp w4))))"

text \<open>Here the \<^verbatim>\<open>finally\<close> calls \<^verbatim>\<open>shutil.rmtree\<close> without asking whether the directory exists.\<close>

definition veo2_process_gcs_videos :: "veo2_env \<Rightarrow> world \<Rightarrow> outcome \<times> world" where
  "veo2_process_gcs_videos e w =
     (let local_temp_dir = tmp_name e;
          w0 = print ''Created temporary directory'' (mkdir local_temp_dir w);
          (r, w1) = veo2_try_body e local_temp_dir w0;
          w2 = (case r of Some x \<Rightarrow> print (''An error occurred: '' @ x) w1 | None \<Rightarrow> w1);
          w3 = print ''Cleaning up temporary directory'' w2
      in if local_temp_dir \<in> set (dirs w3) then (Returns, rmtree local_temp_dir w3)
         else (Raises ''FileNotFoundError'', w3))"

section \<open>The pipeline of \<^verbatim>\<open>xfade.py\<close>\<close>

record xfade_env = env +
  ffmpeg_present :: bool
  ffmpeg_error :: "nat \<Rightarrow> exn option"

text \<open>
  \<^verbatim>\<open>stitch_two_videos\<close> with the default \<^verbatim>\<open>transition_duration=0.6\<close>: the output of the
  \<^verbatim>\<open>xfade\<close> filter ends when the second input, started at \<^verbatim>\<open>offset\<close>, ends.
\<close>

definition stitch_two_videos ::
  "xfade_env \<Rightarrow> nat \<Rightarrow> video_file \<Rightarrow> video_file \<Rightarrow> string \<Rightarrow> rat \<Rightarrow> exn + video_file" where
  "stitch_two_videos e i video1 video2 output_name transition_duration =
     (let duration1 = vf_duration video1;
          offset = duration1 - transition_duration
      in case ffmpeg_error e i of
           Some x \<Rightarrow> Inl x
         | None \<Rightarrow>
             Inr \<lparr>vf_name = output_name, vf_duration = offset + vf_duration video2,
                  vf_size = vf_size video1, vf_audio = True\<rparr>)"

fun xfade_loop ::
  "xfade_env \<Rightarrow> string \<Rightarrow> video_file list \<Rightarrow> nat list \<Rightarrow> video_file \<times> world
     \<Rightarrow> (exn + video_file) \<times> world" where
  "xfade_loop e temp_dir local_videos [] (current_video, w) = (Inr current_video, w)"
| "xfade_loop e temp_dir local_videos (i # rest) (current_video, w) =
     (let next_video = local_videos ! i;
          intermediate_output = ''temp_stitch_'' @ str_nat i @ ''.mp4''
      in case stitch_two_videos e i current_video next_video intermediate_output (3 / 5) of
           Inl x \<Rightarrow> (Inl x, w)
         | Inr stitched \<Rightarrow>
             xfade_loop e temp_dir local_videos rest
               (stitched, print ''Stitched'' (add_file temp_dir intermediate_output w)))"

text \<open>The body of \<^verbatim>\<open>with tempfile.TemporaryDirectory() as temp_dir\<close>, lines 94 to 117.\<close>

definition xfade_with_body ::
  "xfade_env \<Rightarrow> string \<Rightarrow> video_file list \<Rightarrow> world \<Rightarrow> exn option \<times> world" where
  "xfade_with_body e temp_dir video_blobs w =
     (case download_loop e temp_dir 0 video_blobs [] w of
        (Inl x, w1) \<Rightarrow> (Some x, w1)
      | (Inr local_videos, w1) \<Rightarrow>
          (case local_videos of
             [] \<Rightarrow> (Some ''IndexError'', w1)
           | first # _ \<Rightarrow>
               (case xfade_loop e temp_dir local_videos [1 ..< length local_videos] (first, w1) of
                  (Inl x, w2) \<Rightarrow> (Some x, w2)
                | (Inr final_video, w2) \<Rightarrow>
                    (let w3 = print ''Final stitched video created'' w2
                     in case upload_error e of
                          Some x \<Rightarrow> (Some x, w3)
                        | None \<Rightarrow>
                            (None,
                             print ''Uploaded''
                               (upload (DESTINATION_PREFIX @ ''final_video_with_xfade_transitions.mp4'')
                                  (Encoded final_video) w3))))))"

text \<open>
  \<^verbatim>\<open>main\<close>: \<^verbatim>\<open>check_for_ffmpeg\<close> leaves by \<^verbatim>\<open>exit()\<close>, nothing catches an exception, and the
  context manager removes the directory on every way out of the \<^verbatim>\<open>with\<close> block.
\<close>

definition xfade_main :: "xfade_env \<Rightarrow> world \<Rightarrow> outcome \<times> world" where
  "xfade_main e w =
     (if \<not> ffmpeg_present e
      then (Raises ''SystemExit'', print ''CRITICAL ERROR: FFmpeg or ffprobe not found.'' w)
      else
        (let w1 = print ''Listing videos'' w
         in case storage_error e of
              Some x \<Rightarrow> (Raises x, w1)
            | None \<Rightarrow>
                (let video_blobs = sort_key vf_name (listing e)
                 in if length video_blobs < 2
                    then (Returns, print ''Error: Need at least 2 to stitch.'' w1)
                    else
                      (let w2 = print ''Found videos to stitch'' w1;
                           temp_dir = tmp_name e;
                           w3 = print ''Created temporary directory'' (mkdir temp_dir w2);
                           (r, w4) = xfade_with_body e temp_dir video_blobs w3;
                           w5 = rmtree temp_dir w4
                       in case r of
                            Some x \<Rightarrow> (Raises x, w5)
                          | None \<Rightarrow> (Returns, print ''Process complete.'' w5)))))"

text \<open>The local directories and files of a world, and a name that is unused in it.\<close>

definition local_fs :: "world \<Rightarrow> string list \<times> (string \<times> string) list" where
  "local_fs w = (dirs w, files w)"

definition fresh :: "string \<Rightarrow> world \<Rightarrow> bool" where
  "fresh d w = (d \<notin> set (dirs w) \<and> d \<notin> set (map fst (files w)))"


section \<open>The per-file pipelines of \<^verbatim>\<open>aspect_ratio.py\<close> and \<^verbatim>\<open>resolution.py\<close>\<close>

text \<open>
  These two scripts treat each blob on its own: download, open, transform, write, upload.
  Their environment says, per blob, which of these steps raises. The listing holds the
  blobs under the prefix whose names do not end in a slash.
\<close>

record batch_env =
  b_tmp_name :: string
  b_storage_error :: "exn option"
  b_listing :: "video_file list"
  b_download_error :: "nat \<Rightarrow> exn option"
  b_open_error :: "nat \<Rightarrow> exn option"
  b_audio_error :: "nat \<Rightarrow> exn option"
  b_write_error :: "nat \<Rightarrow> exn option"
  b_upload_error :: "nat \<Rightarrow> exn option"

text \<open>\<^verbatim>\<open>math.isclose(a, b, rel_tol=0.02)\<close>, on exact rationals.\<close>

definition isclose :: "rat \<Rightarrow> rat \<Rightarrow> bool" where
  "isclose a b = (\<bar>a - b\<bar> \<le> (1 / 50) * max \<bar>a\<bar> \<bar>b\<bar>)"

text \<open>Lines 66 to 91 of \<^verbatim>\<open>aspect_ratio.py\<close>: the message and the transformation, if any.\<close>

definition aspect_processed :: "nat \<Rightarrow> nat \<Rightarrow> string \<times> transform option" where
  "aspect_processed w h =
     (let ar = of_nat w / of_nat h
      in if isclose ar (16 / 9)
         then (let crop_width = of_nat h * (9 / 16);
                   x1 = (of_nat w / 2) - (crop_width / 2)
               in (''Processing 16:9 video -> 9:16 (Center Crop)'', Some (Crop x1 crop_width)))
         else if isclose ar (9 / 16)
         then (''Processing 9:16 video -> 16:9 (Pillarbox)'', Some (Pillarbox (h, w)))
         else (''SKIPPING: not 16:9 or 9:16'', None))"

fun aspect_loop ::
  "batch_env \<Rightarrow> string \<Rightarrow> (nat \<times> video_file) list \<Rightarrow> world \<Rightarrow> exn option \<times> world" where
  "aspect_loop e tmp [] w = (None, w)"
| "aspect_loop e tmp ((i, blob) # rest) w =
     (let video_filename = vf_name blob;
          w1 = print ''Downloading'' w
      in case b_download_error e i of
           Some x \<Rightarrow> (Some x, w1)
         | None \<Rightarrow>
             (let w2 = add_file tmp video_filename w1
              in case b_open_error e i of
                   Some x \<Rightarrow> (Some x, w2)
                 | None \<Rightarrow>
                     (let (cw, ch) = vf_size blob
                      in if ch = 0
                         then aspect_loop e tmp rest
                                (print ''SKIPPING: Invalid video dimensions'' w2)
                         else
                           (case aspect_processed cw ch of
                              (msg, None) \<Rightarrow> aspect_loop e tmp rest (print msg w2)
                            | (msg, Some processed_clip) \<Rightarrow>
                                (case write_videofile tmp (''processed_'' @ video_filename)
                                        (vf_audio blob) (b_audio_error e i) (b_write_error e i)
                                        (print ''Writing processed video locally'' (print msg w2)) of
                                   (Some x, w3) \<Rightarrow> (Some x, w3)
                                 | (None, w3) \<Rightarrow>
                                        (let w4 = print ''Uploading'' w3
                                         in case b_upload_error e i of
                                              Some x \<Rightarrow> (Some x, w4)
                                            | None \<Rightarrow>
                                                aspect_loop e tmp rest
                                                  (print ''Successfully processed and uploaded''
                                                     (upload
                                                        (''CRED_exps/output_videos/altered_aspect_ratio/''
                                                           @ video_filename)
                                                        (Transformed blob processed_clip) w4))))))))"

definition process_aspect_ratio_in_gcs :: "batch_env \<Rightarrow> world \<Rightarrow> outcome \<times> world" where
  "process_aspect_ratio_in_gcs e w =
     (let local_temp_dir = b_tmp_name e;
          w0 = print ''Created temporary directory'' (mkdir local_temp_dir w);
          (r, w1) =
             (case b_storage_error e of
                Some x \<Rightarrow> (Some x, w0)
              | None \<Rightarrow>
                  aspect_loop e local_temp_dir (enumerate 0 (b_listing e))
                    (print ''Found files to check in source folder'' w0));
          w2 = (case r of Some x \<Rightarrow> print (''An error occurred: '' @ x) w1 | None \<Rightarrow> w1);
          w3 = print ''Cleaning up temporary directory'' w2
      in if local_temp_dir \<in> set (dirs w3) then (Returns, rmtree local_temp_dir w3)
         else (Raises ''FileNotFoundError'', w3))"

fun resize_loop ::
  "batch_env \<Rightarrow> string \<Rightarrow> (nat \<times> video_file) list \<Rightarrow> world \<Rightarrow> exn option \<times> world" where
  "resize_loop e tmp [] w = (None, w)"
| "resize_loop e tmp ((i, blob) # rest) w =
     (let video_filename = vf_name blob;
          w1 = print ''Downloading'' w
      in case b_download_error e i of
           Some x \<Rightarrow> (Some x, w1)
         | None \<Rightarrow>
             (let w2 = print ''Resizing to 1080p'' (add_file tmp video_filename w1)
              in case b_open_error e i of
                   Some x \<Rightarrow> (Some x, w2)
                 | None \<Rightarrow>
                     (case write_videofile tmp (''resized_'' @ video_filename)
                             (vf_audio blob) (b_audio_error e i) (b_write_error e i) w2 of
                        (Some x, w2a) \<Rightarrow> (Some x, w2a)
                      | (None, w2a) \<Rightarrow>
                          (let w3 = print ''Uploading resized video'' w2a
                           in case b_upload_error e i of
                                Some x \<Rightarrow> (Some x, w3)
                              | None \<Rightarrow>
                                  resize_loop e tmp rest
                                    (print ''Successfully processed and uploaded''
                                       (upload (''CRED_exps/output_videos/1080p/'' @ video_filename)
                                          (Transformed blob (ResizeHeight 1080)) w3))))))"

definition resize_videos_in_gcs :: "batch_env \<Rightarrow> world \<Rightarrow> outcome \<times> world" where
  "resize_videos_in_gcs e w =
     (let local_temp_dir = b_tmp_name e;
          w0 = print ''Created temporary directory'' (mkdir local_temp_dir w);
          (r, w1) =
             (case b_storage_error e of
                Some x \<Rightarrow> (Some x, w0)
              | None \<Rightarrow>
                  if b_listing e = [] then (None, print ''No video files found'' w0)
                  else resize_loop e local_temp_dir (enumerate 0 (b_listing e))
                         (print ''Found videos to process'' w0));
          w2 = (case r of Some x \<Rightarrow> print (''An error occurred: '' @ x) w1 | None \<Rightarrow> w1);
          w3 = print ''Cleaning up temporary directory'' w2
      in if local_temp_dir \<in> set (dirs w3) then (Returns, rmtree local_temp_dir w3)
         else (Raises ''FileNotFoundError'', w3))"

text \<open>
  What a run leaves outside a directory and the working directory: the directories, and
  the files in neither.
\<close>

definition outside :: "string \<Rightarrow> world \<Rightarrow> string list \<times> (string \<times> string) list" where
  "outside d w = (dirs w, filter (\<lambda>f. fst f \<noteq> d \<and> fst f \<noteq> ''.'') (files w))"

text \<open>
  A job that was submitted and whose polling loop ended by a \<^verbatim>\<open>break\<close> (a failed job) or by
  using up its iterations (a timed-out job).
\<close>

definition job_ends_failed_or_timed_out :: "job_env \<Rightarrow> bool" where
  "job_ends_failed_or_timed_out j =
     (images_readable j \<and> auth_error j = None
      \<and> (case submit j of SubmitOK _ \<Rightarrow> True | _ \<Rightarrow> False)
      \<and> (case fst (poll_loop (poll j) 0 max_iterations) of Returned _ \<Rightarrow> False | _ \<Rightarrow> True))"

text \<open>The events of one pass of the polling loop that finds the job not done, and the
  events up to a successful submission.\<close>

definition not_done_round :: "event list" where
  "not_done_round = [StatusRequest, Print ''Polling operation. Not done yet.'', Sleep interval_sec]"

definition submitted_events :: "event list" where
  "submitted_events =
     [Print ''Performing Veo 2 Interpolation'', SubmitRequest, Print ''SUCCESS (LRO Initiated)'']"

text \<open>Sample inputs: a job that answers \<open>r\<close> after \<open>n\<close> polls that find it not done.\<close>

definition job_done_after :: "nat \<Rightarrow> poll_response \<Rightarrow> job_env" where
  "job_done_after n r =
     \<lparr>images_readable = True, auth_error = None, submit = SubmitOK ''operations/1'',
      poll = (\<lambda>i. if i < n then PollNotDone else r)\<rparr>"

text \<open>Sample inputs: an empty world, and environments in which nothing raises.\<close>

definition empty_world :: world where
  "empty_world = \<lparr>dirs = [], files = [], uploads = [], trace = []\<rparr>"

definition sample_video :: "string \<Rightarrow> rat \<Rightarrow> nat \<times> nat \<Rightarrow> video_file" where
  "sample_video n d sz = \<lparr>vf_name = n, vf_duration = d, vf_size = sz, vf_audio = True\<rparr>"

definition sample_env :: "video_file list \<Rightarrow> env" where
  "sample_env vs =
     \<lparr>tmp_name = ''/tmp/tmpx'', storage_error = None, listing = vs,
      download_error = (\<lambda>_. None), audio_error = None, write_error = None,
      upload_error = None\<rparr>"

definition sample_veo2_env :: "video_file list \<Rightarrow> job_env \<Rightarrow> veo2_env" where
  "sample_veo2_env vs j =
     \<lparr>tmp_name = ''/tmp/tmpx'', storage_error = None, listing = vs,
      download_error = (\<lambda>_. None), audio_error = None, write_error = None,
      upload_error = None,
      frames = (\<lambda>_. (True, True)), jobs = (\<lambda>_. j), transition_download = (\<lambda>_. Inr None)\<rparr>"

definition sample_xfade_env :: "video_file list \<Rightarrow> xfade_env" where
  "sample_xfade_env vs =
     \<lparr>tmp_name = ''/tmp/tmpx'', storage_error = None, listing = vs,
      download_error = (\<lambda>_. None), audio_error = None, write_error = None,
      upload_error = None,
      ffmpeg_present = True, ffmpeg_error = (\<lambda>_. None)\<rparr>"

definition sample_batch_env :: "video_file list \<Rightarrow> batch_env" where
  "sample_batch_env vs =
     \<lparr>b_tmp_name = ''/tmp/tmpx'', b_storage_error = None, b_listing = vs,
      b_download_error = (\<lambda>_. None), b_open_error = (\<lambda>_. None),
      b_audio_error = (\<lambda>_. None), b_write_error = (\<lambda>_. None),
      b_upload_error = (\<lambda>_. None)\<rparr>"

text \<open>Sample input: a run of \<^verbatim>\<open>veo2_interpolation.py\<close> in which the job of the first pair is
  never done and the job of every other pair succeeds at its first poll; every generated
  clip is downloaded as \<open>bridge\<close>.\<close>

definition mixed_veo2_env :: "video_file list \<Rightarrow> video_file \<Rightarrow> veo2_env" where
  "mixed_veo2_env vs bridge =
     \<lparr>tmp_name = ''/tmp/tmpx'', storage_error = None, listing = vs,
      download_error = (\<lambda>_. None), audio_error = None, write_error = None,
      upload_error = None,
      frames = (\<lambda>_. (True, True)),
      jobs = (\<lambda>i. if i = 0 then job_done_after 600 PollNotDone
                  else job_done_after 0 (PollDone (Some ''gs://veo_exps_prod/t1.mp4''))),
      transition_download = (\<lambda>_. Inr (Some bridge))\<rparr>"


section \<open>Durations and overlaps of the stitched plans\<close>


lemma overlap_loop_later:
  assumes body: "\<And>acc cur i c. body (acc, cur) (i, c) =
      (if i = 0 then (acc @ [set_start 0 c], duration c)
       else (acc @ [g (cur - T) c], cur + (duration c - T)))"
  shows "foldl body (acc, cur) (enumerate (Suc n) cs) =
     (acc @ later_layers g T cur cs, cur + sum_list (map duration cs) - of_nat (length cs) * T)"
proof (induction cs arbitrary: acc cur n)
  case Nil
  then show ?case by simp
next
  case (Cons c cs)
  show ?case
    by (simp add: body Cons.IH algebra_simps)
qed

lemma overlap_loop:
  assumes body: "\<And>acc cur i c. body (acc, cur) (i, c) =
      (if i = 0 then (acc @ [set_start 0 c], duration c)
       else (acc @ [g (cur - T) c], cur + (duration c - T)))"
  shows "foldl body ([], 0) (enumerate 0 (c # cs)) =
     (set_start 0 c # later_layers g T (duration c) cs,
      sum_list (map duration (c # cs)) - of_nat (length cs) * T)"
  using overlap_loop_later [of body g T "[set_start 0 c]" "duration c" 0 cs, OF body]
  by (simp add: body)


lemma slide_loop:
  "foldl (slide_body T w) ([], 0) (enumerate 0 (c # cs)) =
     (set_start 0 c # later_layers (\<lambda>s x. set_start s (fx (SlideInPosition T w) x)) T (duration c) cs,
      sum_list (map duration (c # cs)) - of_nat (length cs) * T)"
  by (rule overlap_loop) (simp add: Let_def)

lemma wipe_loop_later:
  assumes "T \<noteq> 0"
  shows "wipe_loop T sz (enumerate (Suc n) cs) (acc, cur) =
     Inr (acc @ later_layers (\<lambda>s x. fx (WipeMask T sz) (set_start s x)) T cur cs,
          cur + sum_list (map duration cs) - of_nat (length cs) * T)"
proof (induction cs arbitrary: acc cur n)
  case Nil
  then show ?case by simp
next
  case (Cons c cs)
  show ?case
    using assms
    by (simp add: Cons.IH wipe_mask_clip_def create_wipe_mask_def algebra_simps)
qed

lemma wipe_loop_closed:
  assumes "T \<noteq> 0 \<or> cs = []"
  shows "wipe_loop T sz (enumerate 0 (c # cs)) ([], 0) =
     Inr (set_start 0 c # later_layers (\<lambda>s x. fx (WipeMask T sz) (set_start s x)) T (duration c) cs,
          sum_list (map duration (c # cs)) - of_nat (length cs) * T)"
proof (cases "cs = []")
  case True
  then show ?thesis by simp
next
  case False
  with assms have "T \<noteq> 0" by simp
  from wipe_loop_later [OF this, of sz 0 cs "[set_start 0 c]" "duration c"] show ?thesis
    by simp
qed




lemma wipe_stitch_Cons:
  assumes "T \<noteq> 0 \<or> cs = []"
  shows "wipe_stitch T (c # cs) =
     Inr \<lparr>layers = set_start 0 c #
             later_layers (\<lambda>s x. fx (WipeMask T (frame_size c)) (set_start s x)) T (duration c) cs,
          comp_duration = sum_list (map duration (c # cs)) - of_nat (length cs) * T,
          comp_size = frame_size c\<rparr>"
  unfolding wipe_stitch_def list.case Let_def wipe_loop_closed [OF assms]
  by (simp add: CompositeVideoClip_def set_duration_def)



lemma last_cumsum: "last (acc # cumsum acc xs) = acc + sum_list xs"
  by (induction xs arbitrary: acc) (simp_all add: algebra_simps)

lemma concatenate_total:
  "clips \<noteq> [] \<Longrightarrow> total_duration (concatenate_videoclips m clips) =
      Inr (sum_list (map duration clips))"
  using last_cumsum [of 0 "map duration clips"]
  by (cases clips) (simp_all add: concatenate_videoclips_def total_duration_def)




lemma zip_cumsum_placed:
  "map (\<lambda>(c, t). set_start t c) (zip cs (acc # cumsum acc (map duration cs))) = placed_from acc cs"
  by (induction cs arbitrary: acc) simp_all

lemma concatenate_layers:
  "plan_layers (concatenate_videoclips m clips) = placed_from 0 clips"
  using zip_cumsum_placed [of clips 0]
  by (cases clips) (simp_all add: concatenate_videoclips_def plan_layers_def)

lemma placed_from_lower:
  "\<forall>c\<in>set cs. 0 \<le> duration c \<Longrightarrow> x \<in> set (placed_from t cs) \<Longrightarrow> t \<le> start x"
proof (induction cs arbitrary: t)
  case Nil
  then show ?case by simp
next
  case (Cons c cs)
  from Cons.prems(2) consider "x = set_start t c" | "x \<in> set (placed_from (t + duration c) cs)"
    by auto
  then show ?case
  proof cases
    case 1
    then show ?thesis by (simp add: set_start_def)
  next
    case 2
    with Cons.IH [of "t + duration c"] Cons.prems(1) have "t + duration c \<le> start x" by simp
    with Cons.prems(1) show ?thesis by simp
  qed
qed

lemma placed_from_sorted:
  "\<forall>c\<in>set cs. 0 \<le> duration c \<Longrightarrow>
     sorted_wrt (\<lambda>a b. clip_end a \<le> start b) (placed_from t cs)"
proof (induction cs arbitrary: t)
  case Nil
  then show ?case by simp
next
  case (Cons c cs)
  have "clip_end (set_start t c) = t + duration c"
    by (simp add: clip_end_def set_start_def)
  with Cons placed_from_lower [of cs _ "t + duration c"] show ?case
    by simp
qed

lemma concat_no_overlap:
  assumes "\<forall>c\<in>set clips. 0 \<le> duration c"
    and "i < j" and "j < length (plan_layers (concat_stitch clips))"
  shows "clip_end (plan_layers (concat_stitch clips) ! i) \<le> start (plan_layers (concat_stitch clips) ! j)"
  using placed_from_sorted [OF assms(1), of 0] assms(2,3)
  by (simp add: concat_stitch_def concatenate_layers sorted_wrt_iff_nth_less)











lemma length_placed_from: "length (placed_from t cs) = length cs"
  by (induction cs arbitrary: t) simp_all

lemma nth_placed_from:
  "i < length cs \<Longrightarrow>
     placed_from t cs ! i = set_start (t + sum_list (map duration (take i cs))) (cs ! i)"
proof (induction cs arbitrary: t i)
  case Nil
  then show ?case by simp
next
  case (Cons c cs)
  show ?case
  proof (cases i)
    case 0
    then show ?thesis by simp
  next
    case (Suc k)
    with Cons.prems have "k < length cs" by simp
    from Cons.IH [OF this, of "t + duration c"] Suc show ?thesis
      by (simp add: add.assoc)
  qed
qed

lemma end_last_placed_from:
  "cs \<noteq> [] \<Longrightarrow> clip_end (last (placed_from t cs)) = t + sum_list (map duration cs)"
proof (induction cs arbitrary: t)
  case Nil
  then show ?case by simp
next
  case (Cons c cs)
  show ?case
  proof (cases "cs = []")
    case True
    then show ?thesis by (simp add: clip_end_def set_start_def)
  next
    case False
    then have "placed_from (t + duration c) cs \<noteq> []" by (cases cs) simp_all
    with Cons.IH [OF False, of "t + duration c"] show ?thesis
      by (simp add: add.assoc)
  qed
qed

lemma length_later_layers: "length (later_layers g T cur cs) = length cs"
  by (induction cs arbitrary: cur) simp_all

lemma nth_later_layers:
  "k < length cs \<Longrightarrow>
     later_layers g T cur cs ! k =
       g (cur + sum_list (map duration (take k cs)) - of_nat (Suc k) * T) (cs ! k)"
proof (induction cs arbitrary: cur k)
  case Nil
  then show ?case by simp
next
  case (Cons c cs)
  show ?case
  proof (cases k)
    case 0
    then show ?thesis by simp
  next
    case (Suc j)
    with Cons.prems have "j < length cs" by simp
    from Cons.IH [OF this, of "cur + (duration c - T)"] Suc show ?thesis
      by (simp add: algebra_simps)
  qed
qed

section \<open>The claims about the timeline\<close>








text \<open>
  C8. For every non-empty sequence of clips of positive duration, the plan of
  \<^verbatim>\<open>concatenation.py\<close> has one segment per clip; segment \<open>i\<close> is clip \<open>i\<close> itself, unchanged
  but for its start, which is the sum of the durations of the clips before it; the plan
  lasts the sum of the clip durations, which is where its last segment ends; and every
  segment ends no later than any later segment starts.
\<close>

theorem cut_total_and_no_overlap:
  assumes "clips \<noteq> []" and "\<forall>c\<in>set clips. 0 < duration c"
  shows "total_duration (concat_stitch clips) = Inr (sum_list (map duration clips))
       \<and> length (plan_layers (concat_stitch clips)) = length clips
       \<and> (\<forall>i<length clips.
            plan_layers (concat_stitch clips) ! i =
              set_start (sum_list (map duration (take i clips))) (clips ! i))
       \<and> clip_end (last (plan_layers (concat_stitch clips))) = sum_list (map duration clips)
       \<and> (\<forall>i j. i < j \<and> j < length clips \<longrightarrow>
            clip_end (plan_layers (concat_stitch clips) ! i)
              \<le> start (plan_layers (concat_stitch clips) ! j))"
proof -
  have lay: "plan_layers (concat_stitch clips) = placed_from 0 clips"
    by (simp add: concat_stitch_def concatenate_layers)
  have len: "length (plan_layers (concat_stitch clips)) = length clips"
    by (simp add: lay length_placed_from)
  have tot: "total_duration (concat_stitch clips) = Inr (sum_list (map duration clips))"
    using concatenate_total [OF assms(1)] by (simp add: concat_stitch_def)
  have nth: "\<forall>i<length clips.
      plan_layers (concat_stitch clips) ! i =
        set_start (sum_list (map duration (take i clips))) (clips ! i)"
    by (simp add: lay nth_placed_from)
  have lst: "clip_end (last (plan_layers (concat_stitch clips))) = sum_list (map duration clips)"
    using end_last_placed_from [OF assms(1), of 0] by (simp add: lay)
  from assms(2) have nn: "\<forall>c\<in>set clips. 0 \<le> duration c" by auto
  from len tot nth lst concat_no_overlap [OF nn] show ?thesis by simp
qed

text \<open>A clip of one second followed by a clip of three seconds.\<close>

theorem cut_total_and_no_overlap_witness:
  "[clip_of ''a.mp4'' 1 (1920, 1080), clip_of ''b.mp4'' 3 (1280, 720)] \<noteq> []
   \<and> 0 < duration (clip_of ''a.mp4'' 1 (1920, 1080))
   \<and> 0 < duration (clip_of ''b.mp4'' 3 (1280, 720))
   \<and> total_duration (concat_stitch
        [clip_of ''a.mp4'' 1 (1920, 1080), clip_of ''b.mp4'' 3 (1280, 720)]) = Inr 4
   \<and> plan_layers (concat_stitch
        [clip_of ''a.mp4'' 1 (1920, 1080), clip_of ''b.mp4'' 3 (1280, 720)]) ! 1
       = set_start 1 (clip_of ''b.mp4'' 3 (1280, 720))
   \<and> clip_end (plan_layers (concat_stitch
        [clip_of ''a.mp4'' 1 (1920, 1080), clip_of ''b.mp4'' 3 (1280, 720)]) ! 0)
      \<le> start (plan_layers (concat_stitch
        [clip_of ''a.mp4'' 1 (1920, 1080), clip_of ''b.mp4'' 3 (1280, 720)]) ! 1)"
  using cut_total_and_no_overlap
    [of "[clip_of ''a.mp4'' 1 (1920, 1080), clip_of ''b.mp4'' 3 (1280, 720)]"]
  by (simp add: clip_of_def VideoFileClip_def set_start_def clip_end_def)

section \<open>The polling loop\<close>

lemma poll_loop_not_done_prefix:
  "(\<And>k. k < n \<Longrightarrow> srv (i + k) = PollNotDone) \<Longrightarrow>
     poll_loop srv i (n + m) =
       (fst (poll_loop srv (i + n) m),
        concat (replicate n not_done_round) @ snd (poll_loop srv (i + n) m))"
proof (induction n arbitrary: i)
  case 0
  then show ?case by simp
next
  case (Suc n)
  have first: "srv i = PollNotDone" using Suc.prems [of 0] by simp
  have rest: "\<And>k. k < n \<Longrightarrow> srv (Suc i + k) = PollNotDone"
    using Suc.prems [of "Suc _"] by simp
  from Suc.IH [of "Suc i", OF rest] first show ?case
    by (simp add: not_done_round_def split_beta)
qed

lemma poll_loop_never_done:
  assumes "\<And>k. k < n \<Longrightarrow> srv k = PollNotDone"
  shows "poll_loop srv 0 n = (Exhausted, concat (replicate n not_done_round))"
  using poll_loop_not_done_prefix [of n srv 0 0] assms by simp

lemma poll_loop_after_not_done:
  assumes "\<And>k. k < n \<Longrightarrow> srv k = PollNotDone" and "n < mx"
  shows "poll_loop srv 0 mx =
     (fst (poll_loop srv n (Suc (mx - Suc n))),
      concat (replicate n not_done_round) @ snd (poll_loop srv n (Suc (mx - Suc n))))"
proof -
  from assms(2) have "mx = n + Suc (mx - Suc n)" by simp
  with poll_loop_not_done_prefix [of n srv 0 "Suc (mx - Suc n)"] assms(1) show ?thesis
    by simp
qed

lemma status_requests_append:
  "status_requests (xs @ ys) = status_requests xs + status_requests ys"
  by (simp add: status_requests_def)

lemma status_requests_rounds:
  "status_requests (concat (replicate n not_done_round)) = n"
  by (induction n) (simp_all add: status_requests_def not_done_round_def)

lemma network_append: "network (xs @ ys) = network xs @ network ys"
  by (simp add: network_def)

lemma network_rounds:
  "network (concat (replicate n not_done_round)) =
     concat (replicate n [StatusRequest, Sleep interval_sec])"
  by (induction n) (simp_all add: network_def not_done_round_def)

lemma poll_loop_requests_bound: "status_requests (snd (poll_loop srv i n)) \<le> n"
proof (induction n arbitrary: i)
  case 0
  then show ?case by (simp add: status_requests_def)
next
  case (Suc n)
  show ?case
  proof (cases "srv i")
    case PollNotDone
    with Suc.IH [of "Suc i"] show ?thesis
      by (simp add: status_requests_def split_beta)
  qed (simp_all add: status_requests_def)
qed


lemma interpolate_submitted:
  assumes "images_readable j" and "auth_error j = None" and "submit j = SubmitOK op_name"
  shows "interpolate_video_veo2 j ''.png'' ''.png'' =
     (case fst (poll_loop (poll j) 0 max_iterations) of
        Returned uri \<Rightarrow> (Inr uri, submitted_events @ snd (poll_loop (poll j) 0 max_iterations))
      | _ \<Rightarrow> (Inr None, submitted_events @ snd (poll_loop (poll j) 0 max_iterations)
                @ [Print ''ERROR: Polling timed out'']))"
  using assms
  by (simp add: interpolate_video_veo2_def supported_ext_def submitted_events_def split_beta
      split: loop_exit.splits)

text \<open>
  C4. When the job was submitted and the service answers the first five status requests with
  \<^verbatim>\<open>done=false\<close> and the sixth with \<^verbatim>\<open>done=true\<close> and the result \<open>X\<close>, the polling loop
  returns \<open>X\<close>, \<^verbatim>\<open>interpolate_video_veo2\<close> returns \<open>X\<close>, six status requests were issued,
  and on the network a sleep of 10 seconds lies between each two consecutive requests.
\<close>

theorem job_succeeds_after_five_polls:
  assumes "images_readable j" and "auth_error j = None" and "submit j = SubmitOK op_name"
    and "\<forall>k<5. poll j k = PollNotDone" and "poll j 5 = PollDone (Some X)"
  shows "fst (poll_loop (poll j) 0 max_iterations) = Returned (Some X)
       \<and> fst (interpolate_video_veo2 j ''.png'' ''.png'') = Inr (Some X)
       \<and> status_requests (snd (interpolate_video_veo2 j ''.png'' ''.png'')) = 6
       \<and> network (snd (interpolate_video_veo2 j ''.png'' ''.png'')) =
           SubmitRequest # concat (replicate 5 [StatusRequest, Sleep 10]) @ [StatusRequest]"
proof -
  have lt: "5 < max_iterations" by (simp add: max_iterations_def)
  have nd: "\<And>k. k < 5 \<Longrightarrow> poll j k = PollNotDone" using assms(4) by simp
  have loop: "poll_loop (poll j) 0 max_iterations =
      (Returned (Some X),
       concat (replicate 5 not_done_round) @
         [StatusRequest, Print ''SUCCESS (LRO Complete)'', Print ''Generated video available''])"
    using poll_loop_after_not_done [of 5 "poll j" max_iterations, OF nd lt] assms(5)
    by simp
  have res: "interpolate_video_veo2 j ''.png'' ''.png'' =
      (Inr (Some X), submitted_events @ concat (replicate 5 not_done_round) @
         [StatusRequest, Print ''SUCCESS (LRO Complete)'', Print ''Generated video available''])"
    unfolding interpolate_submitted [OF assms(1,2,3)] loop by simp
  have a: "status_requests (snd (interpolate_video_veo2 j ''.png'' ''.png'')) = 6"
    unfolding res snd_conv status_requests_append status_requests_rounds
    by (simp add: status_requests_def submitted_events_def)
  have b: "network (snd (interpolate_video_veo2 j ''.png'' ''.png'')) =
           SubmitRequest # concat (replicate 5 [StatusRequest, Sleep 10]) @ [StatusRequest]"
    unfolding res snd_conv network_append network_rounds
    by (simp add: network_def submitted_events_def interval_sec_def)
  from loop res a b show ?thesis by simp
qed

text \<open>A job that is done at the sixth poll.\<close>

theorem job_succeeds_after_five_polls_witness:
  "images_readable (job_done_after 5 (PollDone (Some ''gs://veo_exps_prod/t0.mp4'')))
   \<and> auth_error (job_done_after 5 (PollDone (Some ''gs://veo_exps_prod/t0.mp4''))) = None
   \<and> submit (job_done_after 5 (PollDone (Some ''gs://veo_exps_prod/t0.mp4'')))
        = SubmitOK ''operations/1''
   \<and> poll (job_done_after 5 (PollDone (Some ''gs://veo_exps_prod/t0.mp4''))) 0 = PollNotDone
   \<and> poll (job_done_after 5 (PollDone (Some ''gs://veo_exps_prod/t0.mp4''))) 4 = PollNotDone
   \<and> poll (job_done_after 5 (PollDone (Some ''gs://veo_exps_prod/t0.mp4''))) 5
        = PollDone (Some ''gs://veo_exps_prod/t0.mp4'')
   \<and> fst (interpolate_video_veo2 (job_done_after 5 (PollDone (Some ''gs://veo_exps_prod/t0.mp4'')))
        ''.png'' ''.png'') = Inr (Some ''gs://veo_exps_prod/t0.mp4'')
   \<and> status_requests (snd (interpolate_video_veo2
        (job_done_after 5 (PollDone (Some ''gs://veo_exps_prod/t0.mp4''))) ''.png'' ''.png'')) = 6"
  using job_succeeds_after_five_polls
    [of "job_done_after 5 (PollDone (Some ''gs://veo_exps_prod/t0.mp4''))" "''operations/1''"
        "''gs://veo_exps_prod/t0.mp4''"]
  by (simp add: job_done_after_def)

text \<open>
  C5. When the status request number \<open>k\<close> (counted from 0, below the ceiling) raises a
  transport error after \<open>k\<close> answers \<^verbatim>\<open>done=false\<close>, the loop is left by \<^verbatim>\<open>break\<close>, the function
  returns \<^verbatim>\<open>None\<close>, exactly \<open>k + 1\<close> status requests were issued and the failing request is the
  last event on the network, whatever the service would have answered later.
\<close>

theorem polling_transport_error_fails_at_once:
  assumes "images_readable j" and "auth_error j = None" and "submit j = SubmitOK op_name"
    and "k < max_iterations" and "\<forall>i<k. poll j i = PollNotDone"
    and "poll j k = PollRequestException"
  shows "fst (poll_loop (poll j) 0 max_iterations) = Broke
       \<and> fst (interpolate_video_veo2 j ''.png'' ''.png'') = Inr None
       \<and> status_requests (snd (interpolate_video_veo2 j ''.png'' ''.png'')) = Suc k
       \<and> network (snd (interpolate_video_veo2 j ''.png'' ''.png'')) =
           SubmitRequest # concat (replicate k [StatusRequest, Sleep interval_sec])
             @ [StatusRequest]"
proof -
  have nd: "\<And>i. i < k \<Longrightarrow> poll j i = PollNotDone" using assms(5) by simp
  have loop: "poll_loop (poll j) 0 max_iterations =
      (Broke, concat (replicate k not_done_round) @
         [StatusRequest, Print ''ERROR: Polling failed''])"
    using poll_loop_after_not_done [of k "poll j" max_iterations, OF nd assms(4)] assms(6)
    by simp
  have res: "interpolate_video_veo2 j ''.png'' ''.png'' =
      (Inr None, submitted_events @ (concat (replicate k not_done_round) @
         [StatusRequest, Print ''ERROR: Polling failed'']) @ [Print ''ERROR: Polling timed out''])"
    unfolding interpolate_submitted [OF assms(1,2,3)] loop by simp
  have a: "status_requests (snd (interpolate_video_veo2 j ''.png'' ''.png'')) = Suc k"
    unfolding res snd_conv status_requests_append status_requests_rounds
    by (simp add: status_requests_def submitted_events_def)
  have b: "network (snd (interpolate_video_veo2 j ''.png'' ''.png'')) =
           SubmitRequest # concat (replicate k [StatusRequest, Sleep interval_sec])
             @ [StatusRequest]"
    unfolding res snd_conv network_append network_rounds
    by (simp add: network_def submitted_events_def)
  from loop res a b show ?thesis by simp
qed

text \<open>A job whose third status request raises.\<close>

theorem polling_transport_error_fails_at_once_witness:
  "images_readable (job_done_after 2 PollRequestException)
   \<and> auth_error (job_done_after 2 PollRequestException) = None
   \<and> submit (job_done_after 2 PollRequestException) = SubmitOK ''operations/1''
   \<and> 2 < max_iterations
   \<and> poll (job_done_after 2 PollRequestException) 0 = PollNotDone
   \<and> poll (job_done_after 2 PollRequestException) 1 = PollNotDone
   \<and> poll (job_done_after 2 PollRequestException) 2 = PollRequestException
   \<and> fst (interpolate_video_veo2 (job_done_after 2 PollRequestException) ''.png'' ''.png'')
        = Inr None
   \<and> status_requests (snd (interpolate_video_veo2 (job_done_after 2 PollRequestException)
        ''.png'' ''.png'')) = 3"
  using polling_transport_error_fails_at_once
    [of "job_done_after 2 PollRequestException" "''operations/1''" 2]
  by (simp add: job_done_after_def max_iterations_def)

section \<open>What a run leaves behind\<close>

lemma world_ops_dirs:
  "dirs (print m w) = dirs w" "dirs (emit evs w) = dirs w" "dirs (add_file d n w) = dirs w"
  "dirs (upload b x w) = dirs w" "dirs (mkdir d w) = dirs w @ [d]"
  "dirs (rmtree d w) = filter (\<lambda>x. x \<noteq> d) (dirs w)" "dirs (remove_file d n w) = dirs w"
  by (simp_all add: print_def emit_def add_file_def upload_def mkdir_def rmtree_def remove_file_def)

lemma world_ops_files:
  "files (print m w) = files w" "files (emit evs w) = files w"
  "files (add_file d n w) = files w @ [(d, n)]"
  "files (upload b x w) = files w" "files (mkdir d w) = files w"
  "files (rmtree d w) = filter (\<lambda>f. fst f \<noteq> d) (files w)"
  "files (remove_file d n w) = filter (\<lambda>f. f \<noteq> (d, n)) (files w)"
  by (simp_all add: print_def emit_def add_file_def upload_def mkdir_def rmtree_def remove_file_def)

lemma world_ops_uploads:
  "uploads (print m w) = uploads w" "uploads (emit evs w) = uploads w"
  "uploads (add_file d n w) = uploads w"
  "uploads (upload b x w) = uploads w @ [(b, x)]" "uploads (mkdir d w) = uploads w"
  "uploads (rmtree d w) = uploads w" "uploads (remove_file d n w) = uploads w"
  by (simp_all add: print_def emit_def add_file_def upload_def mkdir_def rmtree_def remove_file_def)

lemma world_ops_trace:
  "trace (print m w) = trace w @ [Print m]" "trace (emit evs w) = trace w @ evs"
  "trace (add_file d n w) = trace w"
  "trace (upload b x w) = trace w" "trace (mkdir d w) = trace w"
  "trace (rmtree d w) = trace w" "trace (remove_file d n w) = trace w"
  by (simp_all add: print_def emit_def add_file_def upload_def mkdir_def rmtree_def remove_file_def)

lemma outside_ops:
  "outside d (print m w) = outside d w" "outside d (emit evs w) = outside d w"
  "outside d (add_file d n w) = outside d w" "outside d (upload b x w) = outside d w"
  "outside d (add_file ''.'' n w) = outside d w"
  by (simp_all add: outside_def world_ops_dirs world_ops_files)

lemma outside_remove_file: "outside d (remove_file ''.'' n w) = outside d w"
proof -
  have "filter (\<lambda>f. fst f \<noteq> d \<and> fst f \<noteq> ''.'') (filter (\<lambda>f. f \<noteq> (''.'', n)) (files w))
      = filter (\<lambda>f. fst f \<noteq> d \<and> fst f \<noteq> ''.'') (files w)"
    unfolding filter_filter by (rule filter_cong) auto
  then show ?thesis
    by (simp add: outside_def world_ops_dirs world_ops_files)
qed

lemma write_videofile_keeps:
  "outside d (snd (write_videofile d n a ae ve w)) = outside d w
   \<and> uploads (snd (write_videofile d n a ae ve w)) = uploads w"
  by (simp add: write_videofile_def Let_def outside_ops outside_remove_file world_ops_uploads
      split: option.splits)

lemma write_videofile_outside:
  "outside d (snd (write_videofile d n a ae ve w)) = outside d w"
  using write_videofile_keeps [of d n a ae ve w] by simp

lemma write_videofile_result:
  "fst (write_videofile d n a ae ve w) = None \<longleftrightarrow> (a \<longrightarrow> ae = None) \<and> ve = None"
  by (simp add: write_videofile_def Let_def split: option.splits)

lemma download_loop_keeps:
  "outside tmp (snd (download_loop e tmp i blobs acc w)) = outside tmp w
   \<and> uploads (snd (download_loop e tmp i blobs acc w)) = uploads w"
  by (induction blobs arbitrary: i acc w)
     (simp_all add: outside_ops world_ops_uploads split: option.splits)

lemma write_and_upload_outside:
  "outside tmp (snd (write_and_upload n c e tmp w)) = outside tmp w"
proof -
  let ?wv = "write_videofile tmp n (has_audio c) (audio_error e) (write_error e)
     (print ''Writing final video locally'' w)"
  obtain r w1 where v: "?wv = (r, w1)" by (cases ?wv)
  from write_videofile_keeps
    [of tmp n "has_audio c" "audio_error e" "write_error e" "print ''Writing final video locally'' w"] v
  have "outside tmp w1 = outside tmp w" by (simp add: outside_ops)
  then show ?thesis
    unfolding write_and_upload_def v
    by (simp add: Let_def outside_ops split: option.splits)
qed

lemma write_and_upload_media:
  "map snd (uploads (snd (write_and_upload n c e tmp w))) =
     map snd (uploads w) @
       (if (has_audio c \<longrightarrow> audio_error e = None) \<and> write_error e = None
           \<and> upload_error e = None
        then [Rendered c] else [])"
proof -
  let ?wv = "write_videofile tmp n (has_audio c) (audio_error e) (write_error e)
     (print ''Writing final video locally'' w)"
  obtain r w1 where v: "?wv = (r, w1)" by (cases ?wv)
  from write_videofile_keeps
    [of tmp n "has_audio c" "audio_error e" "write_error e" "print ''Writing final video locally'' w"] v
  have u: "uploads w1 = uploads w" by (simp add: world_ops_uploads)
  from write_videofile_result
    [of tmp n "has_audio c" "audio_error e" "write_error e" "print ''Writing final video locally'' w"] v
  have r: "r = None \<longleftrightarrow> (has_audio c \<longrightarrow> audio_error e = None) \<and> write_error e = None"
    by simp
  show ?thesis
    unfolding write_and_upload_def v
    using r by (cases r) (auto simp: Let_def u world_ops_uploads split: option.splits)
qed

lemma gcs_try_body_outside:
  "outside tmp (snd (gcs_try_body n stitch e tmp w)) = outside tmp w"
proof -
  obtain r w1 where d: "download_loop e tmp 0 (listing e) [] (print ''Downloading videos'' w) = (r, w1)"
    by (cases "download_loop e tmp 0 (listing e) [] (print ''Downloading videos'' w)")
  from download_loop_keeps [of tmp e 0 "listing e" "[]" "print ''Downloading videos'' w"] d
  have k: "outside tmp w1 = outside tmp w" by (simp add: outside_ops)
  show ?thesis
    unfolding gcs_try_body_def d
    by (simp add: Let_def k outside_ops write_and_upload_outside split: option.splits sum.splits)
qed

lemma rmtree_leaves:
  assumes "fresh d w" and "outside d w1 = outside d (mkdir d w)"
  shows "fresh d (rmtree d w1) \<and> outside d (rmtree d w1) = outside d w"
proof -
  from assms(2) have a: "dirs w1 = dirs w @ [d]"
    and b: "filter (\<lambda>f. fst f \<noteq> d \<and> fst f \<noteq> ''.'') (files w1)
          = filter (\<lambda>f. fst f \<noteq> d \<and> fst f \<noteq> ''.'') (files w)"
    by (simp_all add: outside_def world_ops_dirs world_ops_files)
  from assms(1) have c: "filter (\<lambda>x. x \<noteq> d) (dirs w) = dirs w"
    by (auto simp: fresh_def intro!: filter_True)
  have f: "filter (\<lambda>f. fst f \<noteq> d \<and> fst f \<noteq> ''.'') (filter (\<lambda>f. fst f \<noteq> d) (files w1))
      = filter (\<lambda>f. fst f \<noteq> d \<and> fst f \<noteq> ''.'') (files w1)"
    unfolding filter_filter by (rule filter_cong) auto
  have g: "fresh d (rmtree d w1)"
    by (auto simp: fresh_def world_ops_dirs world_ops_files)
  from g show ?thesis
    by (simp add: outside_def world_ops_dirs world_ops_files a b c f)
qed

lemma gcs_pipeline_leaves:
  assumes "fresh (tmp_name e) w"
  shows "fst (gcs_pipeline n stitch e w) = Returns
       \<and> fresh (tmp_name e) (snd (gcs_pipeline n stitch e w))
       \<and> outside (tmp_name e) (snd (gcs_pipeline n stitch e w)) = outside (tmp_name e) w"
proof -
  let ?w0 = "print ''Created temporary directory'' (mkdir (tmp_name e) w)"
  obtain r w1 where b: "gcs_try_body n stitch e (tmp_name e) ?w0 = (r, w1)"
    by (cases "gcs_try_body n stitch e (tmp_name e) ?w0")
  from gcs_try_body_outside [of "tmp_name e" n stitch e ?w0] b
  have k: "outside (tmp_name e) w1 = outside (tmp_name e) (mkdir (tmp_name e) w)"
    by (simp add: outside_ops)
  define w2 where "w2 = (case r of Some x \<Rightarrow> print (''An error occurred: '' @ x) w1 | None \<Rightarrow> w1)"
  have k2: "outside (tmp_name e) (print ''Cleaning up temporary directory'' w2)
      = outside (tmp_name e) (mkdir (tmp_name e) w)"
    using k by (simp add: w2_def outside_ops split: option.splits)
  then have ex: "tmp_name e \<in> set (dirs w2)"
    by (simp add: outside_def world_ops_dirs)
  have "gcs_pipeline n stitch e w =
      (Returns, rmtree (tmp_name e) (print ''Cleaning up temporary directory'' w2))"
    unfolding gcs_pipeline_def Let_def b using ex by (simp add: w2_def)
  with rmtree_leaves [OF assms k2] show ?thesis by simp
qed


lemma veo2_transition_keeps:
  "outside tmp (snd (veo2_transition e tmp clips i (sq, w))) = outside tmp w
   \<and> uploads (snd (veo2_transition e tmp clips i (sq, w))) = uploads w"
  by (simp add: veo2_transition_def Let_def split_beta outside_ops world_ops_uploads
      split: option.splits sum.splits)

lemma veo2_loop_keeps:
  "outside tmp (snd (veo2_loop e tmp clips idx (sq, w))) = outside tmp w
   \<and> uploads (snd (veo2_loop e tmp clips idx (sq, w))) = uploads w"
proof (induction idx arbitrary: sq w)
  case Nil
  then show ?case by simp
next
  case (Cons i idx)
  obtain r w1 where t: "veo2_transition e tmp clips i (sq, w) = (r, w1)"
    by (cases "veo2_transition e tmp clips i (sq, w)")
  from veo2_transition_keeps [of tmp e clips i sq w] t
  have k: "outside tmp w1 = outside tmp w" "uploads w1 = uploads w" by simp_all
  show ?case
  proof (cases r)
    case (Inl x)
    with t k show ?thesis by simp
  next
    case (Inr sq1)
    with t k Cons.IH [of sq1 w1] show ?thesis by simp
  qed
qed

lemma veo2_try_body_outside:
  "outside tmp (snd (veo2_try_body e tmp w)) = outside tmp w"
proof -
  obtain r w1 where d: "download_loop e tmp 0 (listing e) [] (print ''Downloading videos'' w) = (r, w1)"
    by (cases "download_loop e tmp 0 (listing e) [] (print ''Downloading videos'' w)")
  from download_loop_keeps [of tmp e 0 "listing e" "[]" "print ''Downloading videos'' w"] d
  have k: "outside tmp w1 = outside tmp w" by (simp add: outside_ops)
  show ?thesis
  proof (cases r)
    case (Inl x)
    with d k show ?thesis by (simp add: veo2_try_body_def split: option.splits)
  next
    case (Inr fs)
    let ?clips = "map VideoFileClip (sort_key vf_name fs)"
    let ?w2 = "print ''Processing videos and generating transitions'' w1"
    obtain r2 w3 where l: "veo2_loop e tmp ?clips [0 ..< length ?clips - 1] ([], ?w2) = (r2, w3)"
      by (cases "veo2_loop e tmp ?clips [0 ..< length ?clips - 1] ([], ?w2)")
    from veo2_loop_keeps [of tmp e ?clips "[0 ..< length ?clips - 1]" "[]" ?w2] l k
    have k3: "outside tmp w3 = outside tmp w" by (simp add: outside_ops)
    from l have l': "veo2_loop e tmp ?clips [0 ..< length fs - Suc 0] ([], ?w2) = (r2, w3)" by simp
    show ?thesis
      unfolding veo2_try_body_def d Inr
      by (simp add: Let_def l' k k3 outside_ops write_and_upload_outside
          split: option.splits sum.splits)
  qed
qed

lemma veo2_process_leaves:
  assumes "fresh (tmp_name e) w"
  shows "fst (veo2_process_gcs_videos e w) = Returns
       \<and> fresh (tmp_name e) (snd (veo2_process_gcs_videos e w))
       \<and> outside (tmp_name e) (snd (veo2_process_gcs_videos e w)) = outside (tmp_name e) w"
proof -
  let ?w0 = "print ''Created temporary directory'' (mkdir (tmp_name e) w)"
  obtain r w1 where b: "veo2_try_body e (tmp_name e) ?w0 = (r, w1)"
    by (cases "veo2_try_body e (tmp_name e) ?w0")
  from veo2_try_body_outside [of "tmp_name e" e ?w0] b
  have k: "outside (tmp_name e) w1 = outside (tmp_name e) (mkdir (tmp_name e) w)"
    by (simp add: outside_ops)
  define w3 where "w3 = print ''Cleaning up temporary directory''
     (case r of Some x \<Rightarrow> print (''An error occurred: '' @ x) w1 | None \<Rightarrow> w1)"
  have k2: "outside (tmp_name e) w3 = outside (tmp_name e) (mkdir (tmp_name e) w)"
    using k by (simp add: w3_def outside_ops split: option.splits)
  then have ex: "tmp_name e \<in> set (dirs w3)"
    by (simp add: outside_def world_ops_dirs)
  have "veo2_process_gcs_videos e w = (Returns, rmtree (tmp_name e) w3)"
    unfolding veo2_process_gcs_videos_def Let_def b using ex by (simp add: w3_def)
  with rmtree_leaves [OF assms k2] show ?thesis by simp
qed

lemma xfade_loop_keeps:
  "outside tmp (snd (xfade_loop e tmp vs idx (cur, w))) = outside tmp w"
  by (induction idx arbitrary: cur w)
     (simp_all add: Let_def outside_ops split: sum.splits)

lemma xfade_with_body_outside:
  "outside tmp (snd (xfade_with_body e tmp blobs w)) = outside tmp w"
proof -
  obtain r w1 where d: "download_loop e tmp 0 blobs [] w = (r, w1)"
    by (cases "download_loop e tmp 0 blobs [] w")
  from download_loop_keeps [of tmp e 0 blobs "[]" w] d
  have k: "outside tmp w1 = outside tmp w" by simp
  show ?thesis
  proof (cases r)
    case (Inl x)
    with d k show ?thesis by (simp add: xfade_with_body_def)
  next
    case (Inr vs)
    show ?thesis
    proof (cases vs)
      case Nil
      with d k Inr show ?thesis by (simp add: xfade_with_body_def)
    next
      case (Cons v vs')
      obtain r2 w2 where l: "xfade_loop e tmp vs [1 ..< length vs] (v, w1) = (r2, w2)"
        by (cases "xfade_loop e tmp vs [1 ..< length vs] (v, w1)")
      from xfade_loop_keeps [of tmp e vs "[1 ..< length vs]" v w1] l k
      have k2: "outside tmp w2 = outside tmp w" by simp
      show ?thesis
        unfolding xfade_with_body_def d Inr
        using l k2 Cons
        by (simp add: Let_def outside_ops split: option.splits sum.splits del: upt_Suc)
    qed
  qed
qed

lemma xfade_main_leaves:
  assumes "fresh (tmp_name e) w"
  shows "fresh (tmp_name e) (snd (xfade_main e w))
       \<and> outside (tmp_name e) (snd (xfade_main e w)) = outside (tmp_name e) w"
proof -
  let ?w3 = "print ''Created temporary directory''
     (mkdir (tmp_name e) (print ''Found videos to stitch'' (print ''Listing videos'' w)))"
  obtain r w4 where b: "xfade_with_body e (tmp_name e) (sort_key vf_name (listing e)) ?w3 = (r, w4)"
    by (cases "xfade_with_body e (tmp_name e) (sort_key vf_name (listing e)) ?w3")
  from xfade_with_body_outside [of "tmp_name e" e "sort_key vf_name (listing e)" ?w3] b
  have k: "outside (tmp_name e) w4 = outside (tmp_name e) (mkdir (tmp_name e) w)"
    by (simp add: outside_ops outside_def world_ops_dirs world_ops_files)
  have fs0: "True" ..
  have fs: "\<And>m v. fresh (tmp_name e) (print m v) = fresh (tmp_name e) v"
    by (simp add: fresh_def world_ops_dirs world_ops_files)
  show ?thesis
    unfolding xfade_main_def Let_def b
    using rmtree_leaves [OF assms k] assms
    by (simp add: fs outside_ops split: option.splits)
qed


lemma interpolate_failed:
  assumes "job_ends_failed_or_timed_out j"
  shows "fst (interpolate_video_veo2 j ''.png'' ''.png'') = Inr None"
proof -
  from assms obtain op_name where s: "submit j = SubmitOK op_name"
    by (cases "submit j") (simp_all add: job_ends_failed_or_timed_out_def)
  from assms have r: "images_readable j" and a: "auth_error j = None"
    and x: "\<forall>uri. fst (poll_loop (poll j) 0 max_iterations) \<noteq> Returned uri"
    by (auto simp: job_ends_failed_or_timed_out_def)
  from x show ?thesis
    unfolding interpolate_submitted [OF r a s]
    by (cases "fst (poll_loop (poll j) 0 max_iterations)") simp_all
qed

lemma veo2_transition_failed:
  assumes "frames e i = (True, True)" and "job_ends_failed_or_timed_out (jobs e i)"
  shows "fst (veo2_transition e tmp clips i (sq, w)) = Inr (sq @ [clips ! i])
       \<and> last (trace (snd (veo2_transition e tmp clips i (sq, w)))) =
           Print ''WARNING: Veo 2 interpolation failed. Skipping this transition.''"
proof -
  obtain r evs where i: "interpolate_video_veo2 (jobs e i) ''.png'' ''.png'' = (r, evs)"
    by (cases "interpolate_video_veo2 (jobs e i) ''.png'' ''.png''")
  with interpolate_failed [OF assms(2)] have r: "r = Inr None" by simp
  show ?thesis
    unfolding veo2_transition_def
    by (simp add: Let_def assms(1) i r world_ops_trace)
qed

lemma veo2_loop_failed:
  assumes "\<forall>i\<in>set idx. frames e i = (True, True) \<and> job_ends_failed_or_timed_out (jobs e i)"
  shows "fst (veo2_loop e tmp clips idx (sq, w)) = Inr (sq @ map ((!) clips) idx)"
  using assms
proof (induction idx arbitrary: sq w)
  case Nil
  then show ?case by simp
next
  case (Cons i idx)
  obtain r w1 where t: "veo2_transition e tmp clips i (sq, w) = (r, w1)"
    by (cases "veo2_transition e tmp clips i (sq, w)")
  from Cons.prems have "frames e i = (True, True)" "job_ends_failed_or_timed_out (jobs e i)"
    by simp_all
  from veo2_transition_failed [OF this, of tmp clips sq w] t
  have r: "r = Inr (sq @ [clips ! i])" by simp
  from Cons.prems have "\<forall>i\<in>set idx. frames e i = (True, True) \<and> job_ends_failed_or_timed_out (jobs e i)"
    by simp
  from Cons.IH [OF this, of "sq @ [clips ! i]" w1] show ?case
    by (simp add: t r)
qed

lemma all_but_last_then_last:
  assumes "clips \<noteq> []"
  shows "map ((!) clips) [0 ..< length clips - 1] @ [last clips] = clips"
proof -
  have "map ((!) clips) [0 ..< length clips - 1] = take (length clips - 1) clips"
    by (metis diff_le_self map_nth take_map take_upt add_0)
  also have "\<dots> = butlast clips" by (simp add: butlast_conv_take)
  finally show ?thesis using assms by simp
qed

lemma download_loop_result:
  "fst (download_loop e tmp i blobs acc w) = Inr fs \<Longrightarrow> fs = acc @ blobs"
proof (induction blobs arbitrary: i acc w)
  case Nil
  then show ?case by simp
next
  case (Cons a blobs)
  show ?case
  proof (cases "download_error e i")
    case None
    with Cons.prems Cons.IH [of "Suc i" "acc @ [a]"] show ?thesis by simp
  next
    case (Some x)
    with Cons.prems show ?thesis by simp
  qed
qed


lemma gcs_pipeline_media:
  "uploads (snd (gcs_pipeline n stitch e w)) =
     uploads (snd (gcs_try_body n stitch e (tmp_name e)
        (print ''Created temporary directory'' (mkdir (tmp_name e) w))))"
  by (simp add: gcs_pipeline_def Let_def split_beta world_ops_uploads split: option.splits)

lemma veo2_process_media:
  "uploads (snd (veo2_process_gcs_videos e w)) =
     uploads (snd (veo2_try_body e (tmp_name e)
        (print ''Created temporary directory'' (mkdir (tmp_name e) w))))"
  by (simp add: veo2_process_gcs_videos_def Let_def split_beta world_ops_uploads
      split: option.splits)

lemma veo2_process_returns: "fst (veo2_process_gcs_videos e w) = Returns"
proof -
  let ?w0 = "print ''Created temporary directory'' (mkdir (tmp_name e) w)"
  obtain r w1 where b: "veo2_try_body e (tmp_name e) ?w0 = (r, w1)"
    by (cases "veo2_try_body e (tmp_name e) ?w0")
  from veo2_try_body_outside [of "tmp_name e" e ?w0] b
  have "dirs w1 = dirs w @ [tmp_name e]"
    by (simp add: outside_def world_ops_dirs)
  then show ?thesis
    unfolding veo2_process_gcs_videos_def Let_def b
    by (simp add: world_ops_dirs split: option.splits)
qed

lemma veo2_tail_media:
  assumes "\<forall>i<length clips - 1.
     frames e i = (True, True) \<and> job_ends_failed_or_timed_out (jobs e i)"
    and "clips \<noteq> []"
  shows "map snd (uploads (snd
     (case veo2_loop e tmp clips [0 ..< length clips - 1] ([], w2) of
        (Inl x, w3) \<Rightarrow> (Some x, w3)
      | (Inr final_sequence, w3) \<Rightarrow>
          (case concatenate_videoclips Chain (final_sequence @ [last clips]) of
             Inl x \<Rightarrow> (Some x, print ''Concatenating final video'' w3)
           | Inr final_clip \<Rightarrow>
               write_and_upload nm final_clip e tmp (print ''Concatenating final video'' w3)))))
     = map snd (uploads w2) @
       (case concatenate_videoclips Chain clips of
          Inl x \<Rightarrow> []
        | Inr final_clip \<Rightarrow>
            if (has_audio final_clip \<longrightarrow> audio_error e = None) \<and> write_error e = None
               \<and> upload_error e = None
            then [Rendered final_clip] else [])"
proof -
  obtain r2 w3 where l: "veo2_loop e tmp clips [0 ..< length clips - 1] ([], w2) = (r2, w3)"
    by (cases "veo2_loop e tmp clips [0 ..< length clips - 1] ([], w2)")
  have "\<forall>i\<in>set [0 ..< length clips - 1].
      frames e i = (True, True) \<and> job_ends_failed_or_timed_out (jobs e i)"
    using assms(1) by simp
  from veo2_loop_failed [OF this, of tmp clips "[]" w2] l
  have r2: "r2 = Inr (map ((!) clips) [0 ..< length clips - 1])" by simp
  from veo2_loop_keeps [of tmp e clips "[0 ..< length clips - 1]" "[]" w2] l
  have u3: "uploads w3 = uploads w2" by simp
  show ?thesis
    unfolding l r2 prod.case sum.case all_but_last_then_last [OF assms(2)]
    by (cases "concatenate_videoclips Chain clips")
       (simp_all add: write_and_upload_media world_ops_uploads u3)
qed

lemma failed_jobs_media:
  assumes "\<forall>i<length (listing e) - 1.
     frames e i = (True, True) \<and> job_ends_failed_or_timed_out (jobs e i)"
  shows "map snd (uploads (snd (veo2_try_body e tmp w))) =
         map snd (uploads (snd (gcs_try_body n concat_stitch e tmp w)))"
proof (cases "storage_error e")
  case (Some x)
  then show ?thesis by (simp add: veo2_try_body_def gcs_try_body_def)
next
  case None
  obtain r w1 where d: "download_loop e tmp 0 (listing e) [] (print ''Downloading videos'' w) = (r, w1)"
    by (cases "download_loop e tmp 0 (listing e) [] (print ''Downloading videos'' w)")
  show ?thesis
  proof (cases r)
    case (Inl x)
    with None d show ?thesis by (simp add: veo2_try_body_def gcs_try_body_def)
  next
    case (Inr fs)
    with d have "fst (download_loop e tmp 0 (listing e) [] (print ''Downloading videos'' w)) = Inr fs"
      by simp
    from download_loop_result [OF this] have fs: "fs = listing e" by simp
    show ?thesis
    proof (cases "fs = []")
      case True
      with None d Inr show ?thesis by (simp add: veo2_try_body_def gcs_try_body_def)
    next
      case False
      let ?clips = "map VideoFileClip (sort_key vf_name fs)"
      have len: "length ?clips = length (listing e)" by (simp add: fs)
      have "length ?clips \<noteq> 0" using False fs by simp
      then have ne: "?clips \<noteq> []" by (simp only: length_0_conv) simp
      have hyp: "\<forall>i<length ?clips - 1.
          frames e i = (True, True) \<and> job_ends_failed_or_timed_out (jobs e i)"
        using assms unfolding len .
      have veo: "map snd (uploads (snd (veo2_try_body e tmp w))) =
          map snd (uploads w1) @
            (case concatenate_videoclips Chain ?clips of
               Inl x \<Rightarrow> []
             | Inr final_clip \<Rightarrow>
                 if (has_audio final_clip \<longrightarrow> audio_error e = None) \<and> write_error e = None
                    \<and> upload_error e = None
                 then [Rendered final_clip] else [])"
        unfolding veo2_try_body_def None d Inr option.case prod.case sum.case Let_def
        by (simp only: False if_False veo2_tail_media [OF hyp ne] world_ops_uploads)
      have cut: "map snd (uploads (snd (gcs_try_body n concat_stitch e tmp w))) =
          map snd (uploads w1) @
            (case concatenate_videoclips Chain ?clips of
               Inl x \<Rightarrow> []
             | Inr final_clip \<Rightarrow>
                 if (has_audio final_clip \<longrightarrow> audio_error e = None) \<and> write_error e = None
                    \<and> upload_error e = None
                 then [Rendered final_clip] else [])"
        unfolding gcs_try_body_def None d Inr option.case prod.case sum.case Let_def
          concat_stitch_def
        using False
        by (cases "concatenate_videoclips Chain ?clips")
           (simp_all add: write_and_upload_media world_ops_uploads)
      show ?thesis unfolding veo cut ..
    qed
  qed
qed

lemma interpolate_requests_bound:
  "status_requests (snd (interpolate_video_veo2 j s t)) \<le> max_iterations"
proof -
  have "status_requests (snd (interpolate_video_veo2 j s t)) = 0
      \<or> status_requests (snd (interpolate_video_veo2 j s t))
          = status_requests (snd (poll_loop (poll j) 0 max_iterations))"
    by (simp add: interpolate_video_veo2_def Let_def split_beta status_requests_def
        split: option.splits submit_response.splits loop_exit.splits)
  with poll_loop_requests_bound [of "poll j" 0 max_iterations] show ?thesis by auto
qed

lemma never_done_times_out:
  assumes "images_readable j" and "auth_error j = None" and "submit j = SubmitOK op_name"
    and "\<forall>k<max_iterations. poll j k = PollNotDone"
  shows "job_ends_failed_or_timed_out j
       \<and> fst (poll_loop (poll j) 0 max_iterations) = Exhausted
       \<and> status_requests (snd (interpolate_video_veo2 j ''.png'' ''.png'')) = max_iterations"
proof -
  have loop: "poll_loop (poll j) 0 max_iterations
      = (Exhausted, concat (replicate max_iterations not_done_round))"
    using poll_loop_never_done [of max_iterations "poll j"] assms(4) by simp
  have "status_requests (snd (interpolate_video_veo2 j ''.png'' ''.png'')) = max_iterations"
    unfolding interpolate_submitted [OF assms(1,2,3)] loop
    by (simp add: status_requests_append status_requests_rounds)
       (simp add: status_requests_def submitted_events_def)
  with loop assms(1,2,3) show ?thesis
    by (simp add: job_ends_failed_or_timed_out_def)
qed

lemma aspect_loop_outside:
  "outside tmp (snd (aspect_loop e tmp blobs w)) = outside tmp w"
proof (induction blobs arbitrary: w)
  case Nil
  then show ?case by simp
next
  case (Cons b blobs)
  obtain i blob where b: "b = (i, blob)" by (cases b)
  show ?case
    unfolding b
    by (simp add: Let_def split_beta Cons.IH outside_ops write_videofile_outside
        split: option.splits prod.splits)
qed

lemma resize_loop_outside:
  "outside tmp (snd (resize_loop e tmp blobs w)) = outside tmp w"
proof (induction blobs arbitrary: w)
  case Nil
  then show ?case by simp
next
  case (Cons b blobs)
  obtain i blob where b: "b = (i, blob)" by (cases b)
  show ?case
    unfolding b
    by (simp add: Let_def split_beta Cons.IH outside_ops write_videofile_outside
        split: option.splits)
qed

lemma process_aspect_ratio_leaves:
  assumes "fresh (b_tmp_name e) w"
  shows "fst (process_aspect_ratio_in_gcs e w) = Returns
       \<and> fresh (b_tmp_name e) (snd (process_aspect_ratio_in_gcs e w))
       \<and> outside (b_tmp_name e) (snd (process_aspect_ratio_in_gcs e w)) = outside (b_tmp_name e) w"
proof -
  let ?w0 = "print ''Created temporary directory'' (mkdir (b_tmp_name e) w)"
  let ?body = "case b_storage_error e of
                Some x \<Rightarrow> (Some x, ?w0)
              | None \<Rightarrow>
                  aspect_loop e (b_tmp_name e) (enumerate 0 (b_listing e))
                    (print ''Found files to check in source folder'' ?w0)"
  obtain r w1 where b: "?body = (r, w1)" by (cases ?body)
  have "outside (b_tmp_name e) (snd ?body) = outside (b_tmp_name e) (mkdir (b_tmp_name e) w)"
    by (simp add: aspect_loop_outside outside_ops split: option.splits)
  with b have k: "outside (b_tmp_name e) w1 = outside (b_tmp_name e) (mkdir (b_tmp_name e) w)"
    by simp
  define w3 where "w3 = print ''Cleaning up temporary directory''
     (case r of Some x \<Rightarrow> print (''An error occurred: '' @ x) w1 | None \<Rightarrow> w1)"
  have k2: "outside (b_tmp_name e) w3 = outside (b_tmp_name e) (mkdir (b_tmp_name e) w)"
    using k by (simp add: w3_def outside_ops split: option.splits)
  then have ex: "b_tmp_name e \<in> set (dirs w3)"
    by (simp add: outside_def world_ops_dirs)
  have "process_aspect_ratio_in_gcs e w = (Returns, rmtree (b_tmp_name e) w3)"
    unfolding process_aspect_ratio_in_gcs_def Let_def b using ex by (simp add: w3_def)
  with rmtree_leaves [OF assms k2] show ?thesis by simp
qed

lemma resize_videos_leaves:
  assumes "fresh (b_tmp_name e) w"
  shows "fst (resize_videos_in_gcs e w) = Returns
       \<and> fresh (b_tmp_name e) (snd (resize_videos_in_gcs e w))
       \<and> outside (b_tmp_name e) (snd (resize_videos_in_gcs e w)) = outside (b_tmp_name e) w"
proof -
  let ?w0 = "print ''Created temporary directory'' (mkdir (b_tmp_name e) w)"
  let ?body = "case b_storage_error e of
                Some x \<Rightarrow> (Some x, ?w0)
              | None \<Rightarrow>
                  if b_listing e = [] then (None, print ''No video files found'' ?w0)
                  else resize_loop e (b_tmp_name e) (enumerate 0 (b_listing e))
                         (print ''Found videos to process'' ?w0)"
  obtain r w1 where b: "?body = (r, w1)" by (cases ?body)
  have "outside (b_tmp_name e) (snd ?body) = outside (b_tmp_name e) (mkdir (b_tmp_name e) w)"
    by (simp add: resize_loop_outside outside_ops split: option.splits)
  with b have k: "outside (b_tmp_name e) w1 = outside (b_tmp_name e) (mkdir (b_tmp_name e) w)"
    by simp
  define w3 where "w3 = print ''Cleaning up temporary directory''
     (case r of Some x \<Rightarrow> print (''An error occurred: '' @ x) w1 | None \<Rightarrow> w1)"
  have k2: "outside (b_tmp_name e) w3 = outside (b_tmp_name e) (mkdir (b_tmp_name e) w)"
    using k by (simp add: w3_def outside_ops split: option.splits)
  then have ex: "b_tmp_name e \<in> set (dirs w3)"
    by (simp add: outside_def world_ops_dirs)
  have "resize_videos_in_gcs e w = (Returns, rmtree (b_tmp_name e) w3)"
    unfolding resize_videos_in_gcs_def Let_def b using ex by (simp add: w3_def)
  with rmtree_leaves [OF assms k2] show ?thesis by simp
qed

section \<open>The claims about whole runs\<close>

lemmas run_defs = gcs_pipeline_def gcs_try_body_def
     sample_env_def sample_video_def empty_world_def Let_def print_def mkdir_def add_file_def
     upload_def rmtree_def write_and_upload_def write_videofile_def remove_file_def
     has_audio_def VideoFileClip_def
     CompositeVideoClip_def set_start_def fx_def set_duration_def DESTINATION_PREFIX_def

lemma veo2_transition_begins:
  assumes "fst (veo2_transition e tmp clips i (sq, w)) = Inr sq1"
  shows "\<exists>b. sq1 = sq @ clips ! i # b"
  using assms
  by (auto simp: veo2_transition_def Let_def split_beta
      split: if_splits sum.splits option.splits)

lemma veo2_loop_begins:
  assumes "fst (veo2_loop e tmp clips idx (sq, w)) = Inr sq1"
  shows "\<exists>more. sq1 = sq @ more \<and> (idx \<noteq> [] \<longrightarrow> (\<exists>b. more = clips ! hd idx # b))"
  using assms
proof (induction idx arbitrary: sq w)
  case Nil
  then show ?case by simp
next
  case (Cons i idx)
  obtain r w1 where t: "veo2_transition e tmp clips i (sq, w) = (r, w1)"
    by (cases "veo2_transition e tmp clips i (sq, w)")
  show ?case
  proof (cases r)
    case (Inl x)
    with Cons.prems t show ?thesis by simp
  next
    case (Inr sq2)
    with t veo2_transition_begins [of e tmp clips i sq w sq2]
    obtain b where b: "sq2 = sq @ clips ! i # b" by auto
    from Cons.prems t Inr have "fst (veo2_loop e tmp clips idx (sq2, w1)) = Inr sq1" by simp
    from Cons.IH [OF this] obtain more where "sq1 = sq2 @ more" by blast
    with b show ?thesis by simp
  qed
qed

lemma veo2_loop_append:
  "veo2_loop e tmp clips (xs @ ys) (sq, w) =
     (case veo2_loop e tmp clips xs (sq, w) of
        (Inl x, w1) \<Rightarrow> (Inl x, w1)
      | (Inr sq1, w1) \<Rightarrow> veo2_loop e tmp clips ys (sq1, w1))"
  by (induction xs arbitrary: sq w) (simp_all split: prod.splits sum.splits)

lemma veo2_loop_failed_step:
  assumes "frames e i = (True, True)" and "job_ends_failed_or_timed_out (jobs e i)"
  shows "veo2_loop e tmp clips (i # rest) (sq, w) =
     veo2_loop e tmp clips rest (sq @ [clips ! i], snd (veo2_transition e tmp clips i (sq, w)))"
proof -
  obtain r w1 where t: "veo2_transition e tmp clips i (sq, w) = (r, w1)"
    by (cases "veo2_transition e tmp clips i (sq, w)")
  from veo2_transition_failed [OF assms, of tmp clips sq w] t
  have r: "r = Inr (sq @ [clips ! i])" by simp
  show ?thesis by (simp add: t r)
qed

lemma failed_pair_adjacent:
  assumes "frames e i = (True, True)" and "job_ends_failed_or_timed_out (jobs e i)"
    and "Suc i < length clips"
    and "fst (veo2_loop e tmp clips [0 ..< length clips - 1] ([], w)) = Inr sq1"
  shows "\<exists>pre post. sq1 @ [last clips] = pre @ [clips ! i, clips ! Suc i] @ post"
proof -
  from assms(3) have idx: "[0 ..< length clips - 1] = [0 ..< i] @ i # [Suc i ..< length clips - 1]"
    using upt_conv_Cons [of i "length clips - 1"] upt_add_eq_append [of 0 i "length clips - 1 - i"]
    by simp
  obtain r0 w0 where p: "veo2_loop e tmp clips [0 ..< i] ([], w) = (r0, w0)"
    by (cases "veo2_loop e tmp clips [0 ..< i] ([], w)")
  from assms(4) p obtain pre where pre: "r0 = Inr pre"
    unfolding idx veo2_loop_append by (cases r0) simp_all
  let ?w1 = "snd (veo2_transition e tmp clips i (pre, w0))"
  from assms(4) p pre
  have rest: "fst (veo2_loop e tmp clips [Suc i ..< length clips - 1] (pre @ [clips ! i], ?w1))
      = Inr sq1"
    unfolding idx veo2_loop_append veo2_loop_failed_step [OF assms(1,2)] by simp
  from veo2_loop_begins [OF rest] obtain more
    where m: "sq1 = (pre @ [clips ! i]) @ more"
      and h: "[Suc i ..< length clips - 1] \<noteq> [] \<longrightarrow>
            (\<exists>b. more = clips ! hd [Suc i ..< length clips - 1] # b)"
    by blast
  show ?thesis
  proof (cases "Suc i < length clips - 1")
    case True
    then have "hd [Suc i ..< length clips - 1] = Suc i" by (simp add: upt_conv_Cons)
    with h True obtain b where "more = clips ! Suc i # b" by auto
    with m have "sq1 @ [last clips] = pre @ [clips ! i, clips ! Suc i] @ (b @ [last clips])"
      by simp
    then show ?thesis by blast
  next
    case False
    with assms(3) have l: "Suc i = length clips - 1" by simp
    with False rest have "sq1 = pre @ [clips ! i]" by simp
    moreover from assms(3) have "clips \<noteq> []" by auto
    with l have "last clips = clips ! Suc i"
      by (simp add: last_conv_nth)
    ultimately have "sq1 @ [last clips] = pre @ [clips ! i, clips ! Suc i] @ []" by simp
    then show ?thesis by blast
  qed
qed

lemma veo2_transition_done:
  assumes "frames e i = (True, True)" and "images_readable (jobs e i)"
    and "auth_error (jobs e i) = None" and "submit (jobs e i) = SubmitOK op_name"
    and "poll (jobs e i) 0 = PollDone (Some uri)" and "uri \<noteq> []"
    and "transition_download e uri = Inr (Some v)"
  shows "fst (veo2_transition e tmp clips i (sq, w)) =
     Inr (sq @ [clips ! i, fx (SpeedX TRANSITION_SPEED) (VideoFileClip v)])"
proof -
  have "fst (poll_loop (poll (jobs e i)) 0 (Suc 599)) = Returned (Some uri)"
    by (subst poll_loop.simps(2)) (simp add: assms(5))
  then have "fst (poll_loop (poll (jobs e i)) 0 max_iterations) = Returned (Some uri)"
    by (simp add: max_iterations_def)
  then have "fst (interpolate_video_veo2 (jobs e i) ''.png'' ''.png'') = Inr (Some uri)"
    unfolding interpolate_submitted [OF assms(2,3,4)] by simp
  then obtain evs where "interpolate_video_veo2 (jobs e i) ''.png'' ''.png'' = (Inr (Some uri), evs)"
    by (cases "interpolate_video_veo2 (jobs e i) ''.png'' ''.png''") simp
  then show ?thesis
    unfolding veo2_transition_def
    by (simp add: Let_def assms(1,6,7))
qed

lemma veo2_loop_single:
  "fst (veo2_loop e tmp clips [i] (sq, w)) = fst (veo2_transition e tmp clips i (sq, w))"
  by (simp split: prod.splits sum.splits)

text \<open>
  C3. Take any adjacent pair \<open>i\<close> of a run of \<^verbatim>\<open>veo2_interpolation.py\<close> whose frames were
  extracted and whose interpolation job was submitted and ended failed or timed out, whatever
  happens at the other pairs. The pass of the loop for that pair raises nothing, appends only
  the pair's first clip to the sequence, uploads nothing and ends with a warning on the
  console, and the loop goes on with the next pair; joined with the pair's second clip, what
  the pass contributes is the plan that \<^verbatim>\<open>concatenation.py\<close> (the cut) builds for the two clips;
  in every run of the loop that no other pair makes raise, the two clips of the pair are
  neighbours in the final sequence; the run returns without raising; the job issues at most
  600 status requests, and exactly 600, ending timed out, when it is never done. When every
  pair of the run is such a pair, the run uploads exactly the video that \<^verbatim>\<open>concatenation.py\<close>
  uploads for the same inputs.
\<close>

theorem failed_interpolation_degrades_to_cut:
  assumes "frames e i = (True, True)" and "job_ends_failed_or_timed_out (jobs e i)"
  shows "fst (veo2_transition e tmp clips i (sq, w)) = Inr (sq @ [clips ! i])
       \<and> last (trace (snd (veo2_transition e tmp clips i (sq, w)))) =
            Print ''WARNING: Veo 2 interpolation failed. Skipping this transition.''
       \<and> uploads (snd (veo2_transition e tmp clips i (sq, w))) = uploads w
       \<and> veo2_loop e tmp clips (i # rest) (sq, w) =
            veo2_loop e tmp clips rest
              (sq @ [clips ! i], snd (veo2_transition e tmp clips i (sq, w)))
       \<and> map_sum id (\<lambda>s. concatenate_videoclips Chain (s @ [clips ! Suc i]))
            (fst (veo2_transition e tmp clips i ([], w))) =
            Inr (concat_stitch [clips ! i, clips ! Suc i])
       \<and> (\<forall>sq1. Suc i < length clips
              \<and> fst (veo2_loop e tmp clips [0 ..< length clips - 1] ([], w)) = Inr sq1 \<longrightarrow>
            (\<exists>pre post. sq1 @ [last clips] = pre @ [clips ! i, clips ! Suc i] @ post))
       \<and> fst (veo2_process_gcs_videos e w) = Returns
       \<and> status_requests (snd (interpolate_video_veo2 (jobs e i) ''.png'' ''.png'')) \<le> 600
       \<and> ((\<forall>k<600. poll (jobs e i) k = PollNotDone) \<longrightarrow>
            fst (poll_loop (poll (jobs e i)) 0 max_iterations) = Exhausted
            \<and> status_requests (snd (interpolate_video_veo2 (jobs e i) ''.png'' ''.png'')) = 600)
       \<and> ((\<forall>k<length (listing e) - 1.
              frames e k = (True, True) \<and> job_ends_failed_or_timed_out (jobs e k)) \<longrightarrow>
            map snd (uploads (snd (veo2_process_gcs_videos e w))) =
            map snd (uploads (snd (process_gcs_videos_concat_only e w))))"
proof -
  note t = veo2_transition_failed [OF assms]
  have a: "fst (veo2_transition e tmp clips i (sq, w)) = Inr (sq @ [clips ! i])"
    and b: "last (trace (snd (veo2_transition e tmp clips i (sq, w)))) =
            Print ''WARNING: Veo 2 interpolation failed. Skipping this transition.''"
    using t [of tmp clips sq w] by simp_all
  have c: "uploads (snd (veo2_transition e tmp clips i (sq, w))) = uploads w"
    using veo2_transition_keeps [of tmp e clips i sq w] by simp
  have d: "veo2_loop e tmp clips (i # rest) (sq, w) =
            veo2_loop e tmp clips rest
              (sq @ [clips ! i], snd (veo2_transition e tmp clips i (sq, w)))"
    by (rule veo2_loop_failed_step [OF assms])
  have f: "map_sum id (\<lambda>s. concatenate_videoclips Chain (s @ [clips ! Suc i]))
            (fst (veo2_transition e tmp clips i ([], w))) =
            Inr (concat_stitch [clips ! i, clips ! Suc i])"
    using t [of tmp clips "[]" w] by (simp add: concat_stitch_def)
  have g: "\<forall>sq1. Suc i < length clips
              \<and> fst (veo2_loop e tmp clips [0 ..< length clips - 1] ([], w)) = Inr sq1 \<longrightarrow>
            (\<exists>pre post. sq1 @ [last clips] = pre @ [clips ! i, clips ! Suc i] @ post)"
    using failed_pair_adjacent [OF assms] by blast
  have h: "status_requests (snd (interpolate_video_veo2 (jobs e i) ''.png'' ''.png'')) \<le> 600"
    using interpolate_requests_bound [of "jobs e i"] by (simp add: max_iterations_def)
  from assms(2) obtain op_name where s: "submit (jobs e i) = SubmitOK op_name"
    by (cases "submit (jobs e i)") (simp_all add: job_ends_failed_or_timed_out_def)
  from assms(2) have r: "images_readable (jobs e i)" and au: "auth_error (jobs e i) = None"
    by (simp_all add: job_ends_failed_or_timed_out_def)
  have k: "(\<forall>k<600. poll (jobs e i) k = PollNotDone) \<longrightarrow>
            fst (poll_loop (poll (jobs e i)) 0 max_iterations) = Exhausted
            \<and> status_requests (snd (interpolate_video_veo2 (jobs e i) ''.png'' ''.png'')) = 600"
    using never_done_times_out [OF r au s] by (simp add: max_iterations_def)
  have m: "(\<forall>k<length (listing e) - 1.
              frames e k = (True, True) \<and> job_ends_failed_or_timed_out (jobs e k)) \<longrightarrow>
            map snd (uploads (snd (veo2_process_gcs_videos e w))) =
            map snd (uploads (snd (process_gcs_videos_concat_only e w)))"
    unfolding veo2_process_media process_gcs_videos_concat_only_def gcs_pipeline_media
    using failed_jobs_media by blast
  from a b c d f g h k m veo2_process_returns [of e w] show ?thesis by blast
qed

text \<open>Three clips: the job of the first pair is never done, that of the second pair
  succeeds at once.\<close>

theorem failed_interpolation_degrades_to_cut_witness:
  "frames (mixed_veo2_env
      [sample_video ''a.mp4'' 1 (1920, 1080), sample_video ''b.mp4'' 3 (1920, 1080),
       sample_video ''c.mp4'' 2 (1920, 1080)] (sample_video ''t.mp4'' 5 (1920, 1080))) 0
     = (True, True)
   \<and> job_ends_failed_or_timed_out (jobs (mixed_veo2_env
      [sample_video ''a.mp4'' 1 (1920, 1080), sample_video ''b.mp4'' 3 (1920, 1080),
       sample_video ''c.mp4'' 2 (1920, 1080)] (sample_video ''t.mp4'' 5 (1920, 1080))) 0)
   \<and> fst (veo2_transition (mixed_veo2_env
      [sample_video ''a.mp4'' 1 (1920, 1080), sample_video ''b.mp4'' 3 (1920, 1080),
       sample_video ''c.mp4'' 2 (1920, 1080)] (sample_video ''t.mp4'' 5 (1920, 1080)))
      ''/tmp/tmpx''
      [clip_of ''a.mp4'' 1 (1920, 1080), clip_of ''b.mp4'' 3 (1920, 1080),
       clip_of ''c.mp4'' 2 (1920, 1080)] 0 ([], empty_world))
     = Inr [clip_of ''a.mp4'' 1 (1920, 1080)]
   \<and> fst (veo2_loop (mixed_veo2_env
      [sample_video ''a.mp4'' 1 (1920, 1080), sample_video ''b.mp4'' 3 (1920, 1080),
       sample_video ''c.mp4'' 2 (1920, 1080)] (sample_video ''t.mp4'' 5 (1920, 1080)))
      ''/tmp/tmpx''
      [clip_of ''a.mp4'' 1 (1920, 1080), clip_of ''b.mp4'' 3 (1920, 1080),
       clip_of ''c.mp4'' 2 (1920, 1080)] [0, 1] ([], empty_world))
     = Inr [clip_of ''a.mp4'' 1 (1920, 1080), clip_of ''b.mp4'' 3 (1920, 1080),
            fx (SpeedX 5) (clip_of ''t.mp4'' 5 (1920, 1080))]
   \<and> status_requests (snd (interpolate_video_veo2 (jobs (mixed_veo2_env
      [sample_video ''a.mp4'' 1 (1920, 1080), sample_video ''b.mp4'' 3 (1920, 1080),
       sample_video ''c.mp4'' 2 (1920, 1080)] (sample_video ''t.mp4'' 5 (1920, 1080))) 0)
      ''.png'' ''.png'')) = 600"
proof -
  let ?e = "mixed_veo2_env
      [sample_video ''a.mp4'' 1 (1920, 1080), sample_video ''b.mp4'' 3 (1920, 1080),
       sample_video ''c.mp4'' 2 (1920, 1080)] (sample_video ''t.mp4'' 5 (1920, 1080))"
  let ?clips = "[clip_of ''a.mp4'' 1 (1920, 1080), clip_of ''b.mp4'' 3 (1920, 1080),
       clip_of ''c.mp4'' 2 (1920, 1080)]"
  have f: "frames ?e 0 = (True, True)"
    by (simp add: mixed_veo2_env_def sample_veo2_env_def)
  have j0: "jobs ?e 0 = job_done_after 600 PollNotDone"
    by (simp add: mixed_veo2_env_def sample_veo2_env_def)
  have j: "job_ends_failed_or_timed_out (jobs ?e 0)"
    unfolding j0
    using never_done_times_out [of "job_done_after 600 PollNotDone" "''operations/1''"]
    by (simp add: job_done_after_def max_iterations_def)
  have never: "\<forall>k<600. poll (jobs ?e 0) k = PollNotDone"
    unfolding j0 by (simp add: job_done_after_def)
  have second: "fst (veo2_transition ?e ''/tmp/tmpx'' ?clips 1 (sq, w)) =
      Inr (sq @ [?clips ! 1, fx (SpeedX TRANSITION_SPEED)
        (VideoFileClip (sample_video ''t.mp4'' 5 (1920, 1080)))])" for sq w
    by (rule veo2_transition_done [where op_name = "''operations/1''"
          and uri = "''gs://veo_exps_prod/t1.mp4''"])
       (simp_all add: mixed_veo2_env_def sample_veo2_env_def job_done_after_def)
  note c3 = failed_interpolation_degrades_to_cut [OF f j, of "''/tmp/tmpx''" ?clips "[]"
      empty_world "[1]"]
  from c3 have step: "veo2_loop ?e ''/tmp/tmpx'' ?clips [0, 1] ([], empty_world) =
      veo2_loop ?e ''/tmp/tmpx'' ?clips [1]
        ([] @ [?clips ! 0], snd (veo2_transition ?e ''/tmp/tmpx'' ?clips 0 ([], empty_world)))"
    by blast
  have l: "fst (veo2_loop ?e ''/tmp/tmpx'' ?clips [0, 1] ([], empty_world)) =
      Inr [clip_of ''a.mp4'' 1 (1920, 1080), clip_of ''b.mp4'' 3 (1920, 1080),
            fx (SpeedX 5) (clip_of ''t.mp4'' 5 (1920, 1080))]"
    unfolding step veo2_loop_single second
    by (simp add: clip_of_def sample_video_def TRANSITION_SPEED_def)
  from c3 never have n: "status_requests (snd (interpolate_video_veo2 (jobs ?e 0)
      ''.png'' ''.png'')) = 600"
    by blast
  from c3 have t: "fst (veo2_transition ?e ''/tmp/tmpx'' ?clips 0 ([], empty_world)) =
      Inr ([] @ [?clips ! 0])"
    by blast
  from f j t l n show ?thesis by simp
qed

lemma temporary_directory_gone:
  assumes "fresh (tmp_name e) w" and "fresh (tmp_name ev) w" and "fresh (tmp_name ex) w"
    and "fresh (b_tmp_name eb) w"
  shows "fresh (tmp_name e) (snd (gcs_pipeline n stitch e w))
       \<and> outside (tmp_name e) (snd (gcs_pipeline n stitch e w)) = outside (tmp_name e) w
       \<and> fresh (tmp_name ev) (snd (veo2_process_gcs_videos ev w))
       \<and> outside (tmp_name ev) (snd (veo2_process_gcs_videos ev w)) = outside (tmp_name ev) w
       \<and> fresh (tmp_name ex) (snd (xfade_main ex w))
       \<and> outside (tmp_name ex) (snd (xfade_main ex w)) = outside (tmp_name ex) w
       \<and> fresh (b_tmp_name eb) (snd (process_aspect_ratio_in_gcs eb w))
       \<and> outside (b_tmp_name eb) (snd (process_aspect_ratio_in_gcs eb w))
            = outside (b_tmp_name eb) w
       \<and> fresh (b_tmp_name eb) (snd (resize_videos_in_gcs eb w))
       \<and> outside (b_tmp_name eb) (snd (resize_videos_in_gcs eb w)) = outside (b_tmp_name eb) w"
  using gcs_pipeline_leaves [OF assms(1), of n stitch] veo2_process_leaves [OF assms(2)]
    xfade_main_leaves [OF assms(3)] process_aspect_ratio_leaves [OF assms(4)]
    resize_videos_leaves [OF assms(4)]
  by simp

text \<open>
  C10. The claim says that no intermediate file survives a run. In every pipeline the
  temporary directory and all that lies in it are removed on every path (lemma
  \<open>temporary_directory_gone\<close>), but the intermediate sound file of \<^verbatim>\<open>write_videofile\<close> is
  written to the working directory, outside the temporary directory. Here \<^verbatim>\<open>concatenation.py\<close>
  runs on one video that has a sound track, and the video pass of \<^verbatim>\<open>write_videofile\<close> raises:
  the run returns, the temporary directory is gone, nothing is uploaded, and the sound file
  \<^verbatim>\<open>concatenated_video_no_transitionTEMP_MPY_wvf_snd.mp4\<close> is left in the working directory.
\<close>

theorem temp_audio_file_survives_failed_write:
  "fst (process_gcs_videos_concat_only
      ((sample_env [sample_video ''a.mp4'' 1 (1920, 1080)])\<lparr>write_error := Some ''OSError''\<rparr>)
      empty_world) = Returns
   \<and> dirs (snd (process_gcs_videos_concat_only
      ((sample_env [sample_video ''a.mp4'' 1 (1920, 1080)])\<lparr>write_error := Some ''OSError''\<rparr>)
      empty_world)) = []
   \<and> files (snd (process_gcs_videos_concat_only
      ((sample_env [sample_video ''a.mp4'' 1 (1920, 1080)])\<lparr>write_error := Some ''OSError''\<rparr>)
      empty_world)) = [(''.'', ''concatenated_video_no_transitionTEMP_MPY_wvf_snd.mp4'')]
   \<and> uploads (snd (process_gcs_videos_concat_only
      ((sample_env [sample_video ''a.mp4'' 1 (1920, 1080)])\<lparr>write_error := Some ''OSError''\<rparr>)
      empty_world)) = []
   \<and> local_fs (snd (process_gcs_videos_concat_only
      ((sample_env [sample_video ''a.mp4'' 1 (1920, 1080)])\<lparr>write_error := Some ''OSError''\<rparr>)
      empty_world)) \<noteq> local_fs empty_world"
  by (simp add: process_gcs_videos_concat_only_def concat_stitch_def concatenate_videoclips_def
      temp_audiofile_def splitext_root_def local_fs_def run_defs)


lemma gcs_pipeline_empty:
  assumes "listing e = []" and "storage_error e = None"
  shows "gcs_pipeline n stitch e w =
     (Returns, rmtree (tmp_name e)
        (print ''Cleaning up temporary directory''
          (print ''No video files found. Exiting.''
            (print ''Downloading videos''
              (print ''Created temporary directory'' (mkdir (tmp_name e) w))))))"
  using assms
  by (simp add: gcs_pipeline_def gcs_try_body_def Let_def world_ops_dirs)

lemma veo2_process_empty:
  assumes "listing e = []" and "storage_error e = None"
  shows "veo2_process_gcs_videos e w =
     (Returns, rmtree (tmp_name e)
        (print ''Cleaning up temporary directory''
          (print ''No video files found. Exiting.''
            (print ''Downloading videos''
              (print ''Created temporary directory'' (mkdir (tmp_name e) w))))))"
  using assms
  by (simp add: veo2_process_gcs_videos_def veo2_try_body_def Let_def world_ops_dirs)

lemma xfade_main_too_few:
  assumes "length (listing e) < 2" and "storage_error e = None" and "ffmpeg_present e"
  shows "xfade_main e w =
     (Returns, print ''Error: Need at least 2 to stitch.'' (print ''Listing videos'' w))"
  using assms by (simp add: xfade_main_def Let_def)

text \<open>
  C6, as the code has it. With no video under the prefix, every script built on the shared
  frame (\<^verbatim>\<open>concatenation.py\<close> among them) and \<^verbatim>\<open>veo2_interpolation.py\<close> print that no video
  files were found, and \<^verbatim>\<open>xfade.py\<close> prints that it needs at least two; each returns
  normally, raises nothing and uploads nothing.
\<close>

theorem empty_clip_list_returns_early:
  assumes "listing e = []" and "storage_error e = None"
    and "listing ev = []" and "storage_error ev = None"
    and "listing ex = []" and "storage_error ex = None" and "ffmpeg_present ex"
  shows "fst (process_gcs_videos_concat_only e w) = Returns
       \<and> uploads (snd (process_gcs_videos_concat_only e w)) = uploads w
       \<and> trace (snd (process_gcs_videos_concat_only e w)) =
            trace w @ [Print ''Created temporary directory'', Print ''Downloading videos'',
                       Print ''No video files found. Exiting.'',
                       Print ''Cleaning up temporary directory'']
       \<and> (\<forall>n stitch. gcs_pipeline n stitch e w = process_gcs_videos_concat_only e w)
       \<and> fst (veo2_process_gcs_videos ev w) = Returns
       \<and> uploads (snd (veo2_process_gcs_videos ev w)) = uploads w
       \<and> fst (xfade_main ex w) = Returns
       \<and> uploads (snd (xfade_main ex w)) = uploads w
       \<and> trace (snd (xfade_main ex w)) =
            trace w @ [Print ''Listing videos'', Print ''Error: Need at least 2 to stitch.'']"
proof -
  have x: "length (listing ex) < 2" using assms(5) by simp
  show ?thesis
    unfolding process_gcs_videos_concat_only_def
      gcs_pipeline_empty [OF assms(1,2)] veo2_process_empty [OF assms(3,4)]
      xfade_main_too_few [OF x assms(6,7)]
    by (simp add: world_ops_uploads world_ops_trace)
qed

text \<open>Environments with an empty listing.\<close>

theorem empty_clip_list_returns_early_witness:
  "listing (sample_env []) = [] \<and> storage_error (sample_env []) = None
   \<and> listing (sample_veo2_env [] (job_done_after 0 PollNotDone)) = []
   \<and> storage_error (sample_veo2_env [] (job_done_after 0 PollNotDone)) = None
   \<and> listing (sample_xfade_env []) = [] \<and> storage_error (sample_xfade_env []) = None
   \<and> ffmpeg_present (sample_xfade_env [])
   \<and> fst (process_gcs_videos_concat_only (sample_env []) empty_world) = Returns
   \<and> uploads (snd (process_gcs_videos_concat_only (sample_env []) empty_world)) = []
   \<and> uploads (snd (xfade_main (sample_xfade_env []) empty_world)) = []"
  using empty_clip_list_returns_early
    [of "sample_env []" "sample_veo2_env [] (job_done_after 0 PollNotDone)"
        "sample_xfade_env []" empty_world]
  by (simp add: sample_env_def sample_veo2_env_def sample_xfade_env_def empty_world_def)

text \<open>
  C6 as stated fails: on an empty listing \<^verbatim>\<open>process_gcs_videos_concat_only\<close> does not raise
  \<^verbatim>\<open>InvalidInput\<close>; it returns normally after four messages.
\<close>

theorem empty_clip_list_counterexample:
  "fst (process_gcs_videos_concat_only (sample_env []) empty_world) \<noteq> Raises ''InvalidInput''
   \<and> process_gcs_videos_concat_only (sample_env []) empty_world =
       (Returns,
        empty_world\<lparr>trace :=
          [Print ''Created temporary directory'', Print ''Downloading videos'',
           Print ''No video files found. Exiting.'', Print ''Cleaning up temporary directory'']\<rparr>)"
  by (simp add: process_gcs_videos_concat_only_def run_defs)

lemma slide_stitch_Cons:
  "slide_stitch T (c # cs) =
     Inr \<lparr>layers = set_start 0 c #
             later_layers (\<lambda>s x. set_start s (fx (SlideInPosition T (fst (frame_size c))) x))
               T (duration c) cs,
          comp_duration = sum_list (map duration (c # cs)) - of_nat (length cs) * T,
          comp_size = frame_size c\<rparr>"
  unfolding slide_stitch_def slide_loop
  by (simp add: Let_def CompositeVideoClip_def set_duration_def)

lemma nth_overlap_layers:
  assumes "1 \<le> i" and "i < length (c # cs)"
  shows "(x # later_layers g T (duration c) cs) ! i =
     g (sum_list (map duration (take i (c # cs))) - of_nat i * T) ((c # cs) ! i)"
proof -
  from assms(1) obtain k where i: "i = Suc k" by (cases i) simp_all
  with assms(2) have "k < length cs" by simp
  from nth_later_layers [OF this, of g T "duration c"] show ?thesis
    by (simp add: i)
qed

text \<open>
  C9, as the code has it. For every non-empty sequence of clips, whatever their frame sizes,
  the slide scheduler raises nothing and so does, for a transition duration other than zero,
  the wipe scheduler: the canvas is the frame size of the first clip; every clip is placed,
  the first at 0 and clip \<open>i\<close> at the sum of the durations before it minus \<open>i\<close> times the
  transition duration, each with its own frame size; the slide offset of every later clip
  is the width of the first clip and its wipe mask has the size of the first clip.
\<close>

theorem slide_and_wipe_ignore_frame_sizes:
  assumes "clips \<noteq> []"
  shows "map_sum id comp_size (slide_stitch T clips) = Inr (frame_size (hd clips))
       \<and> length (plan_layers (slide_stitch T clips)) = length clips
       \<and> plan_layers (slide_stitch T clips) ! 0 = set_start 0 (hd clips)
       \<and> (\<forall>i. 1 \<le> i \<and> i < length clips \<longrightarrow>
            plan_layers (slide_stitch T clips) ! i =
              set_start (sum_list (map duration (take i clips)) - of_nat i * T)
                (fx (SlideInPosition T (fst (frame_size (hd clips)))) (clips ! i)))
       \<and> (T \<noteq> 0 \<longrightarrow>
            map_sum id comp_size (wipe_stitch T clips) = Inr (frame_size (hd clips))
            \<and> length (plan_layers (wipe_stitch T clips)) = length clips
            \<and> plan_layers (wipe_stitch T clips) ! 0 = set_start 0 (hd clips)
            \<and> (\<forall>i. 1 \<le> i \<and> i < length clips \<longrightarrow>
                 plan_layers (wipe_stitch T clips) ! i =
                   fx (WipeMask T (frame_size (hd clips)))
                     (set_start (sum_list (map duration (take i clips)) - of_nat i * T)
                        (clips ! i))))"
proof -
  from assms obtain c cs where c: "clips = c # cs" by (cases clips) auto
  have s: "map_sum id comp_size (slide_stitch T clips) = Inr (frame_size (hd clips))
       \<and> length (plan_layers (slide_stitch T clips)) = length clips
       \<and> plan_layers (slide_stitch T clips) ! 0 = set_start 0 (hd clips)"
    unfolding c slide_stitch_Cons by (simp add: plan_layers_def length_later_layers)
  have sl: "\<forall>i. 1 \<le> i \<and> i < length clips \<longrightarrow>
            plan_layers (slide_stitch T clips) ! i =
              set_start (sum_list (map duration (take i clips)) - of_nat i * T)
                (fx (SlideInPosition T (fst (frame_size (hd clips)))) (clips ! i))"
    unfolding c slide_stitch_Cons plan_layers_def
    using nth_overlap_layers
      [of _ c cs "set_start 0 c" "\<lambda>s x. set_start s (fx (SlideInPosition T (fst (frame_size c))) x)" T]
    by simp
  have w: "T \<noteq> 0 \<longrightarrow>
            map_sum id comp_size (wipe_stitch T clips) = Inr (frame_size (hd clips))
            \<and> length (plan_layers (wipe_stitch T clips)) = length clips
            \<and> plan_layers (wipe_stitch T clips) ! 0 = set_start 0 (hd clips)"
  proof
    assume "T \<noteq> 0"
    then have t: "T \<noteq> 0 \<or> cs = []" by simp
    show "map_sum id comp_size (wipe_stitch T clips) = Inr (frame_size (hd clips))
            \<and> length (plan_layers (wipe_stitch T clips)) = length clips
            \<and> plan_layers (wipe_stitch T clips) ! 0 = set_start 0 (hd clips)"
      unfolding c wipe_stitch_Cons [OF t] by (simp add: plan_layers_def length_later_layers)
  qed
  have wl: "T \<noteq> 0 \<longrightarrow> (\<forall>i. 1 \<le> i \<and> i < length clips \<longrightarrow>
                 plan_layers (wipe_stitch T clips) ! i =
                   fx (WipeMask T (frame_size (hd clips)))
                     (set_start (sum_list (map duration (take i clips)) - of_nat i * T)
                        (clips ! i)))"
  proof
    assume "T \<noteq> 0"
    then have t: "T \<noteq> 0 \<or> cs = []" by simp
    show "\<forall>i. 1 \<le> i \<and> i < length clips \<longrightarrow>
                 plan_layers (wipe_stitch T clips) ! i =
                   fx (WipeMask T (frame_size (hd clips)))
                     (set_start (sum_list (map duration (take i clips)) - of_nat i * T)
                        (clips ! i))"
      unfolding c wipe_stitch_Cons [OF t] plan_layers_def
      using nth_overlap_layers
        [of _ c cs "set_start 0 c" "\<lambda>s x. fx (WipeMask T (frame_size c)) (set_start s x)" T]
      by simp
  qed
  from s sl w wl show ?thesis by blast
qed

text \<open>A 1920x1080 clip followed by a 1280x720 clip.\<close>

theorem slide_and_wipe_ignore_frame_sizes_witness:
  "[clip_of ''a.mp4'' 1 (1920, 1080), clip_of ''b.mp4'' 3 (1280, 720)] \<noteq> []
   \<and> frame_size (clip_of ''a.mp4'' 1 (1920, 1080)) \<noteq> frame_size (clip_of ''b.mp4'' 3 (1280, 720))
   \<and> map_sum id comp_size (slide_stitch 2
        [clip_of ''a.mp4'' 1 (1920, 1080), clip_of ''b.mp4'' 3 (1280, 720)]) = Inr (1920, 1080)
   \<and> plan_layers (slide_stitch 2
        [clip_of ''a.mp4'' 1 (1920, 1080), clip_of ''b.mp4'' 3 (1280, 720)]) ! 1 =
        set_start (- 1) (fx (SlideInPosition 2 1920) (clip_of ''b.mp4'' 3 (1280, 720)))
   \<and> frame_size (plan_layers (slide_stitch 2
        [clip_of ''a.mp4'' 1 (1920, 1080), clip_of ''b.mp4'' 3 (1280, 720)]) ! 1) = (1280, 720)
   \<and> length (plan_layers (wipe_stitch 1
        [clip_of ''a.mp4'' 1 (1920, 1080), clip_of ''b.mp4'' 3 (1280, 720)])) = 2
   \<and> plan_layers (wipe_stitch 1
        [clip_of ''a.mp4'' 1 (1920, 1080), clip_of ''b.mp4'' 3 (1280, 720)]) ! 1 =
        fx (WipeMask 1 (1920, 1080)) (set_start 0 (clip_of ''b.mp4'' 3 (1280, 720)))"
  using slide_and_wipe_ignore_frame_sizes
    [of "[clip_of ''a.mp4'' 1 (1920, 1080), clip_of ''b.mp4'' 3 (1280, 720)]" 2]
    slide_and_wipe_ignore_frame_sizes
    [of "[clip_of ''a.mp4'' 1 (1920, 1080), clip_of ''b.mp4'' 3 (1280, 720)]" 1]
  by (simp add: clip_of_def VideoFileClip_def set_start_def fx_def)

text \<open>
  C9 as stated fails: for two clips of different frame sizes the slide scheduler does not
  fail with \<^verbatim>\<open>UnsupportedFrameSize\<close>, and the run of \<^verbatim>\<open>slide.py\<close> uploads the composition.
\<close>

theorem slide_frame_size_counterexample:
  "vf_size (sample_video ''a.mp4'' 1 (1920, 1080)) \<noteq> vf_size (sample_video ''b.mp4'' 3 (1280, 720))
   \<and> slide_stitch 2 [clip_of ''a.mp4'' 1 (1920, 1080), clip_of ''b.mp4'' 3 (1280, 720)]
       \<noteq> Inl ''UnsupportedFrameSize''
   \<and> fst (process_gcs_videos_with_slide
       (sample_env [sample_video ''a.mp4'' 1 (1920, 1080), sample_video ''b.mp4'' 3 (1280, 720)])
       empty_world) = Returns
   \<and> uploads (snd (process_gcs_videos_with_slide
       (sample_env [sample_video ''a.mp4'' 1 (1920, 1080), sample_video ''b.mp4'' 3 (1280, 720)])
       empty_world)) =
        [(''CRED_exps/output_videos/concatenated_video_slide.mp4'',
          Rendered \<lparr>layers =
            [\<lparr>filename = ''a.mp4'', duration = 1, frame_size = (1920, 1080), start = 0,
              effects = [], audio = True\<rparr>,
             \<lparr>filename = ''b.mp4'', duration = 3, frame_size = (1280, 720), start = - 1,
              effects = [SlideInPosition 2 1920], audio = True\<rparr>],
            comp_duration = 2, comp_size = (1920, 1080)\<rparr>)]"
  by (simp add: process_gcs_videos_with_slide_def slide_stitch_def clip_of_def run_defs)

text \<open>
  C7, as the code has it. For a single clip the schedulers of \<^verbatim>\<open>concatenation.py\<close>,
  \<^verbatim>\<open>crossfade.py\<close>, \<^verbatim>\<open>fade-in-out.py\<close>, \<^verbatim>\<open>slide.py\<close> and \<^verbatim>\<open>wipe.py\<close> raise nothing and yield
  the plan with that clip alone, starting at 0, with no effect applied; \<^verbatim>\<open>xfade.py\<close> prints
  that it needs at least two videos and returns without a plan.
\<close>

theorem single_clip_plan:
  assumes "listing ex = [v]" and "storage_error ex = None" and "ffmpeg_present ex"
  shows "concat_stitch [c] =
           Inr \<lparr>layers = [set_start 0 c], comp_duration = duration c, comp_size = frame_size c\<rparr>
       \<and> crossfade_stitch T [c] =
           Inr \<lparr>layers = [set_start 0 c], comp_duration = duration c, comp_size = frame_size c\<rparr>
       \<and> fade_stitch T [c] =
           Inr \<lparr>layers = [set_start 0 c], comp_duration = duration c, comp_size = frame_size c\<rparr>
       \<and> slide_stitch T [c] =
           Inr \<lparr>layers = [set_start 0 c], comp_duration = duration c, comp_size = frame_size c\<rparr>
       \<and> wipe_stitch T [c] =
           Inr \<lparr>layers = [set_start 0 c], comp_duration = duration c, comp_size = frame_size c\<rparr>
       \<and> xfade_main ex w =
           (Returns, print ''Error: Need at least 2 to stitch.'' (print ''Listing videos'' w))"
proof -
  have x: "length (listing ex) < 2" using assms(1) by simp
  have a: "concat_stitch [c] =
      Inr \<lparr>layers = [set_start 0 c], comp_duration = duration c, comp_size = frame_size c\<rparr>"
    by (simp add: concat_stitch_def concatenate_videoclips_def)
  have b: "crossfade_stitch T [c] =
      Inr \<lparr>layers = [set_start 0 c], comp_duration = duration c, comp_size = frame_size c\<rparr>"
    by (simp add: crossfade_stitch_def CompositeVideoClip_def set_duration_def set_start_def)
  have f: "fade_stitch T [c] =
      Inr \<lparr>layers = [set_start 0 c], comp_duration = duration c, comp_size = frame_size c\<rparr>"
    by (simp add: fade_stitch_def fade_body_def concatenate_videoclips_def)
  show ?thesis
    unfolding slide_stitch_Cons wipe_stitch_Cons [of T "[]" c, simplified]
      xfade_main_too_few [OF x assms(2,3)] a b f
    by simp
qed

text \<open>One clip of one second.\<close>

theorem single_clip_plan_witness:
  "listing (sample_xfade_env [sample_video ''a.mp4'' 1 (1920, 1080)])
     = [sample_video ''a.mp4'' 1 (1920, 1080)]
   \<and> storage_error (sample_xfade_env [sample_video ''a.mp4'' 1 (1920, 1080)]) = None
   \<and> ffmpeg_present (sample_xfade_env [sample_video ''a.mp4'' 1 (1920, 1080)])
   \<and> length (plan_layers (crossfade_stitch (1 / 2) [clip_of ''a.mp4'' 1 (1920, 1080)])) = 1
   \<and> total_duration (crossfade_stitch (1 / 2) [clip_of ''a.mp4'' 1 (1920, 1080)]) = Inr 1
   \<and> fst (xfade_main (sample_xfade_env [sample_video ''a.mp4'' 1 (1920, 1080)]) empty_world)
       = Returns"
  using single_clip_plan
    [of "sample_xfade_env [sample_video ''a.mp4'' 1 (1920, 1080)]"
        "sample_video ''a.mp4'' 1 (1920, 1080)" "clip_of ''a.mp4'' 1 (1920, 1080)" "1 / 2"
        empty_world]
  by (simp add: sample_xfade_env_def plan_layers_def total_duration_def clip_of_def
      VideoFileClip_def)

text \<open>
  C7 as stated fails: with exactly one video \<^verbatim>\<open>main\<close> of \<^verbatim>\<open>xfade.py\<close> prints an error and
  uploads nothing.
\<close>

theorem single_clip_xfade_counterexample:
  "length (listing (sample_xfade_env [sample_video ''a.mp4'' 1 (1920, 1080)])) = 1
   \<and> xfade_main (sample_xfade_env [sample_video ''a.mp4'' 1 (1920, 1080)]) empty_world =
      (Returns,
       empty_world\<lparr>trace :=
         [Print ''Listing videos'', Print ''Error: Need at least 2 to stitch.'']\<rparr>)
   \<and> uploads (snd (xfade_main (sample_xfade_env [sample_video ''a.mp4'' 1 (1920, 1080)])
        empty_world)) = []"
  by (simp add: xfade_main_def sample_xfade_env_def sample_video_def empty_world_def print_def
      Let_def)

end
